theory Spec2Isabelle
  imports Complex_Main "HOL-Library.Sublist"
begin

section \<open>Python values that travel through the dispatcher\<close>

text \<open>
  The values \<^verbatim>\<open>call_tool\<close> handles are what the tool-calling protocol and the bridge
  hand over: decoded JSON. A Python \<^verbatim>\<open>dict\<close> is an association list in insertion order
  (its keys are pairwise distinct in Python; lookups take the first binding), \<^verbatim>\<open>None\<close>
  is \<open>JNull\<close>. The parameter \<^verbatim>\<open>arguments\<close> is annotated \<^verbatim>\<open>Any\<close>, so it ranges over all
  of \<open>json\<close>, not only over objects.
\<close>

datatype json =
    JNull
  | JBool bool
  | JInt int
  | JFloat real
  | JStr string
  | JList "json list"
  | JObj "(string \<times> json) list"

text \<open>Truth value of a Python object, as \<^verbatim>\<open>or\<close>, \<^verbatim>\<open>not\<close> and \<^verbatim>\<open>all\<close> test it.\<close>

fun truthy :: "json \<Rightarrow> bool" where
  "truthy JNull = False"
| "truthy (JBool b) = b"
| "truthy (JInt i) = (i \<noteq> 0)"
| "truthy (JFloat x) = (x \<noteq> 0)"
| "truthy (JStr s) = (s \<noteq> [])"
| "truthy (JList xs) = (xs \<noteq> [])"
| "truthy (JObj kvs) = (kvs \<noteq> [])"

fun type_name :: "json \<Rightarrow> string" where
  "type_name JNull = ''NoneType''"
| "type_name (JBool b) = ''bool''"
| "type_name (JInt i) = ''int''"
| "type_name (JFloat x) = ''float''"
| "type_name (JStr s) = ''str''"
| "type_name (JList xs) = ''list''"
| "type_name (JObj kvs) = ''dict''"

definition quoted :: "string \<Rightarrow> string" where
  "quoted s = [CHR 0x27] @ s @ [CHR 0x27]"

subsection \<open>Exceptions\<close>

text \<open>
  The classes of exception that occur below; every one derives from \<^verbatim>\<open>Exception\<close>.
  \<open>ConnectionError\<close>, \<open>Timeout\<close> and \<open>JSONDecodeError\<close> are the classes of the
  \<^verbatim>\<open>requests\<close> library for a refused connection, an expired timeout and a body that is
  not JSON (\<^verbatim>\<open>requests.exceptions.JSONDecodeError\<close>, as \<^verbatim>\<open>response.json()\<close> raises it
  since version 2.27 of the library); with \<open>OtherRequestException\<close> they are the
  subclasses of \<^verbatim>\<open>requests.RequestException\<close>. \<open>OtherException\<close> stands for any
  other subclass of \<^verbatim>\<open>Exception\<close> the library may raise. \<open>ValueError\<close> and
  \<open>RecursionError\<close> are what the decoder of the standard library raises on an
  integer literal beyond the interpreter's digit limit and on a body nested beyond the
  recursion limit; \<^verbatim>\<open>response.json()\<close> converts neither, so they are no
  \<^verbatim>\<open>RequestException\<close>. An exception carries the text \<^verbatim>\<open>str(e)\<close>; the texts of the
  exceptions of the interpreter are those of CPython 3.11.
\<close>

datatype exc_class =
    ConnectionError
  | Timeout
  | JSONDecodeError
  | OtherRequestException
  | TypeError
  | AttributeError
  | KeyError
  | ValueError
  | RecursionError
  | OtherException

datatype exn = Exn (exc_class: exc_class) (message: string)

text \<open>\<^verbatim>\<open>isinstance(e, requests.RequestException)\<close>\<close>

fun is_RequestException :: "exc_class \<Rightarrow> bool" where
  "is_RequestException ConnectionError = True"
| "is_RequestException Timeout = True"
| "is_RequestException JSONDecodeError = True"
| "is_RequestException OtherRequestException = True"
| "is_RequestException TypeError = False"
| "is_RequestException AttributeError = False"
| "is_RequestException KeyError = False"
| "is_RequestException ValueError = False"
| "is_RequestException RecursionError = False"
| "is_RequestException OtherException = False"

subsection \<open>The three operations applied to \<^verbatim>\<open>arguments\<close> and to sub-results\<close>

text \<open>\<^verbatim>\<open>k in s\<close> for two strings: \<open>k\<close> occurs in \<open>s\<close> as a substring.\<close>

fun str_contains :: "string \<Rightarrow> string \<Rightarrow> bool" where
  "str_contains k [] = (k = [])"
| "str_contains k (c # cs) = (take (length k) (c # cs) = k \<or> str_contains k cs)"

text \<open>
  \<^verbatim>\<open>k in v\<close> for a string \<open>k\<close>: key membership in a dict, element membership in a
  list, substring test in a string, \<^verbatim>\<open>TypeError\<close> on anything that is no container.
\<close>

fun py_in :: "string \<Rightarrow> json \<Rightarrow> exn + bool" where
  "py_in k (JObj kvs) = Inr (k \<in> set (map fst kvs))"
| "py_in k (JList xs) = Inr (JStr k \<in> set xs)"
| "py_in k (JStr s) = Inr (str_contains k s)"
| "py_in k v =
     Inl (Exn TypeError (''argument of type '' @ quoted (type_name v) @ '' is not iterable''))"

text \<open>\<^verbatim>\<open>v.get(k)\<close>: the binding of a dict or \<^verbatim>\<open>None\<close>; no other value has the method.\<close>

fun py_get :: "json \<Rightarrow> string \<Rightarrow> exn + json" where
  "py_get (JObj kvs) k = Inr (case map_of kvs k of None \<Rightarrow> JNull | Some x \<Rightarrow> x)"
| "py_get v k =
     Inl (Exn AttributeError
       (quoted (type_name v) @ '' object has no attribute '' @ quoted ''get''))"

text \<open>\<^verbatim>\<open>v[k]\<close> for a string \<open>k\<close>.\<close>

fun py_getitem :: "json \<Rightarrow> string \<Rightarrow> exn + json" where
  "py_getitem (JObj kvs) k =
     (case map_of kvs k of None \<Rightarrow> Inl (Exn KeyError (quoted k)) | Some x \<Rightarrow> Inr x)"
| "py_getitem (JList xs) k =
     Inl (Exn TypeError ''list indices must be integers or slices, not str'')"
| "py_getitem (JStr s) k =
     Inl (Exn TypeError (''string indices must be integers, not '' @ quoted ''str''))"
| "py_getitem v k =
     Inl (Exn TypeError (quoted (type_name v) @ '' object is not subscriptable''))"

subsection \<open>Serialisation\<close>

text \<open>The nesting of lists and dicts in a value: 0 for a scalar.\<close>

fun nesting :: "json \<Rightarrow> nat" where
  "nesting (JList xs) = Suc (foldr max (map nesting xs) 0)"
| "nesting (JObj kvs) = Suc (foldr max (map (\<lambda>kv. nesting (snd kv)) kvs) 0)"
| "nesting v = 0"

text \<open>
  \<^verbatim>\<open>json.dumps(doc, indent=2)\<close>. With \<^verbatim>\<open>indent\<close> set the library runs its recursive
  encoder, one generator frame for each level of nesting of the document, and raises
  \<^verbatim>\<open>RecursionError\<close> when the nesting exceeds what the recursion limit of the
  interpreter leaves at the call. That capacity belongs to the run, not to the program:
  it is \<open>3 + headroom\<close> levels, where \<open>headroom\<close> is a parameter. The three levels
  that are always there are those of the documents the dispatcher builds from strings and
  booleans alone, the deepest being \<^verbatim>\<open>{"results": [{"error": ...}], "success": true}\<close>.
  On decoded JSON the encoder has no other failure: keys are strings, \<^verbatim>\<open>NaN\<close> and the
  infinities are written out, and an integer that was decoded is within the digit limit.
  The text returned is represented by the document it serialises.
\<close>

definition json_dumps :: "nat \<Rightarrow> json \<Rightarrow> exn + json" where
  "json_dumps headroom doc =
     (if nesting doc \<le> 3 + headroom then Inr doc
      else Inl (Exn RecursionError ''maximum recursion depth exceeded while calling a Python object''))"

section \<open>Effects: the HTTP exchanges of one call\<close>

text \<open>
  The only effect of the program is the HTTP exchange with the bridge. A computation
  takes the list of requests attempted so far and returns a value or a raised exception
  together with the extended list. What the network answers is a parameter: the
  \<open>i\<close>-th exchange yields \<open>net i\<close>, either the decoded body
  (\<^verbatim>\<open>response.json()\<close>) or the exception that \<^verbatim>\<open>requests.get\<close>,
  \<^verbatim>\<open>requests.post\<close> or \<^verbatim>\<open>response.json()\<close> raised.
\<close>

datatype http_method = GET | POST

record request =
  rq_method :: http_method
  rq_url :: string
  rq_json :: "json option"
  rq_timeout :: nat

type_synonym reply = "exn + json"

type_synonym network = "nat \<Rightarrow> reply"

type_synonym 'a io = "request list \<Rightarrow> (exn + 'a) \<times> request list"

definition io_return :: "'a \<Rightarrow> 'a io" where
  "io_return a = (\<lambda>sent. (Inr a, sent))"

definition io_lift :: "exn + 'a \<Rightarrow> 'a io" where
  "io_lift r = (\<lambda>sent. (r, sent))"

definition io_bind :: "'a io \<Rightarrow> ('a \<Rightarrow> 'b io) \<Rightarrow> 'b io" where
  "io_bind m f =
     (\<lambda>sent. case m sent of
        (Inl e, sent') \<Rightarrow> (Inl e, sent')
      | (Inr a, sent') \<Rightarrow> f a sent')"

text \<open>\<^verbatim>\<open>try: m except C as e: h(e)\<close>, where \<open>handles\<close> tells the classes under \<open>C\<close>.\<close>

definition io_except :: "'a io \<Rightarrow> (exc_class \<Rightarrow> bool) \<Rightarrow> (exn \<Rightarrow> 'a io) \<Rightarrow> 'a io" where
  "io_except m handles h =
     (\<lambda>sent. case m sent of
        (Inl e, sent') \<Rightarrow> if handles (exc_class e) then h e sent' else (Inl e, sent')
      | (Inr a, sent') \<Rightarrow> (Inr a, sent'))"

text \<open>\<^verbatim>\<open>requests.get(url, timeout=t).json()\<close> and \<^verbatim>\<open>requests.post(url, json=b, timeout=t).json()\<close>\<close>

definition requests_get :: "network \<Rightarrow> string \<Rightarrow> nat \<Rightarrow> json io" where
  "requests_get net u t =
     (\<lambda>sent. (net (length sent),
        sent @ [\<lparr>rq_method = GET, rq_url = u, rq_json = None, rq_timeout = t\<rparr>]))"

definition requests_post :: "network \<Rightarrow> string \<Rightarrow> json \<Rightarrow> nat \<Rightarrow> json io" where
  "requests_post net u b t =
     (\<lambda>sent. (net (length sent),
        sent @ [\<lparr>rq_method = POST, rq_url = u, rq_json = Some b, rq_timeout = t\<rparr>]))"

section \<open>FreeplaneClient\<close>

record FreeplaneClient =
  base_url :: string
  timeout :: nat

definition FreeplaneClient_init :: "string \<Rightarrow> FreeplaneClient" where
  "FreeplaneClient_init url = \<lparr>base_url = url, timeout = 10\<rparr>"

definition check_connection :: "network \<Rightarrow> FreeplaneClient \<Rightarrow> json io" where
  "check_connection net self =
     io_except (requests_get net (base_url self @ ''/status'') (timeout self))
       is_RequestException
       (\<lambda>e. io_return (JObj
          [(''error'', JStr ''Cannot connect to Freeplane bridge''),
           (''details'', JStr (message e)),
           (''hint'', JStr ''Make sure Freeplane is running and the FreeplaneHttpBridge.groovy script is executed'')]))"

definition execute :: "network \<Rightarrow> FreeplaneClient \<Rightarrow> string \<Rightarrow> json \<Rightarrow> json io" where
  "execute net self command params =
     io_except
       (requests_post net (base_url self @ ''/execute'')
          (JObj [(''command'', JStr command),
                 (''params'', if truthy params then params else JObj [])])
          (timeout self))
       is_RequestException
       (\<lambda>e. io_return (JObj [(''error'', JStr (message e))]))"

section \<open>The tool catalog\<close>

record Tool =
  tool_name :: string
  description :: string
  inputSchema :: json

definition list_tools :: "Tool list" where
  "list_tools =
    [\<lparr>tool_name = ''check_connection'',
      description = ''Check if Freeplane is running and the bridge is active'',
      inputSchema = JObj [(''type'', JStr ''object''), (''properties'', JObj [])]\<rparr>,
     \<lparr>tool_name = ''get_map_info'',
      description = ''Get information about the currently open mind map'',
      inputSchema = JObj [(''type'', JStr ''object''), (''properties'', JObj [])]\<rparr>,
     \<lparr>tool_name = ''get_selected_node'',
      description = ''Get information about the currently selected node'',
      inputSchema = JObj [(''type'', JStr ''object''), (''properties'', JObj [])]\<rparr>,
     \<lparr>tool_name = ''select_node'',
      description = ''Select a specific node by its ID'',
      inputSchema = JObj
          [(''type'', JStr ''object''),
           (''properties'', JObj
            [(''node_id'', JObj
              [(''type'', JStr ''string''),
               (''description'', JStr ''ID of the node to select'')])]),
           (''required'', JList [JStr ''node_id''])]\<rparr>,
     \<lparr>tool_name = ''navigate_to_parent'',
      description = ''Navigate to the parent of the currently selected node'',
      inputSchema = JObj [(''type'', JStr ''object''), (''properties'', JObj [])]\<rparr>,
     \<lparr>tool_name = ''navigate_to_child'',
      description = ''Navigate to a child of the currently selected node'',
      inputSchema = JObj
          [(''type'', JStr ''object''),
           (''properties'', JObj
            [(''index'', JObj
              [(''type'', JStr ''integer''),
               (''description'', JStr ''Index of the child (0-based)''),
               (''default'', JInt 0)])])]\<rparr>,
     \<lparr>tool_name = ''create_child_node'',
      description = ''Create a new child node under the currently selected node'',
      inputSchema = JObj
          [(''type'', JStr ''object''),
           (''properties'', JObj
            [(''text'', JObj
              [(''type'', JStr ''string''),
               (''description'', JStr ''Text for the new node'')]),
             (''position'', JObj
              [(''type'', JStr ''string''),
               (''description'', JStr (''Position: '' @ quoted ''left'' @ '' or '' @ quoted ''right'')),
               (''enum'', JList [JStr ''left'', JStr ''right''])])])]\<rparr>,
     \<lparr>tool_name = ''create_sibling_node'',
      description = ''Create a new sibling node next to the currently selected node'',
      inputSchema = JObj
          [(''type'', JStr ''object''),
           (''properties'', JObj
            [(''text'', JObj
              [(''type'', JStr ''string''),
               (''description'', JStr ''Text for the new node'')]),
             (''before'', JObj
              [(''type'', JStr ''boolean''),
               (''description'', JStr ''Insert before (true) or after (false) current node'')])])]\<rparr>,
     \<lparr>tool_name = ''set_node_text'',
      description = ''Change the text of a node'',
      inputSchema = JObj
          [(''type'', JStr ''object''),
           (''properties'', JObj
            [(''node_id'', JObj
              [(''type'', JStr ''string''),
               (''description'', JStr ''ID of the node (omit for current)'')]),
             (''text'', JObj
              [(''type'', JStr ''string''),
               (''description'', JStr ''New text for the node'')])]),
           (''required'', JList [JStr ''text''])]\<rparr>,
     \<lparr>tool_name = ''delete_node'',
      description = ''Delete a node and all its children'',
      inputSchema = JObj
          [(''type'', JStr ''object''),
           (''properties'', JObj
            [(''node_id'', JObj
              [(''type'', JStr ''string''),
               (''description'', JStr ''ID of the node to delete'')])]),
           (''required'', JList [JStr ''node_id''])]\<rparr>,
     \<lparr>tool_name = ''set_node_color'',
      description = ''Set the text color of a node'',
      inputSchema = JObj
          [(''type'', JStr ''object''),
           (''properties'', JObj
            [(''node_id'', JObj
              [(''type'', JStr ''string''),
               (''description'', JStr ''ID of the node (omit for current)'')]),
             (''color'', JObj
              [(''type'', JStr ''string''),
               (''description'', JStr ''Color as hex (#FF0000) or name (red)'')])]),
           (''required'', JList [JStr ''color''])]\<rparr>,
     \<lparr>tool_name = ''set_background_color'',
      description = ''Set the background color of a node'',
      inputSchema = JObj
          [(''type'', JStr ''object''),
           (''properties'', JObj
            [(''node_id'', JObj
              [(''type'', JStr ''string''),
               (''description'', JStr ''ID of the node (omit for current)'')]),
             (''color'', JObj
              [(''type'', JStr ''string''),
               (''description'', JStr ''Color as hex (#FF0000) or name (red)'')])]),
           (''required'', JList [JStr ''color''])]\<rparr>,
     \<lparr>tool_name = ''set_node_style'',
      description = ''Apply a predefined style to a node'',
      inputSchema = JObj
          [(''type'', JStr ''object''),
           (''properties'', JObj
            [(''node_id'', JObj
              [(''type'', JStr ''string''),
               (''description'', JStr ''ID of the node (omit for current)'')]),
             (''style'', JObj
              [(''type'', JStr ''string''),
               (''description'', JStr (''Style name (e.g., '' @ quoted ''default'' @ '', '' @ quoted ''important'' @ '')''))])]),
           (''required'', JList [JStr ''style''])]\<rparr>,
     \<lparr>tool_name = ''set_font_formatting'',
      description = ''Set font formatting (bold, italic, size) for a node'',
      inputSchema = JObj
          [(''type'', JStr ''object''),
           (''properties'', JObj
            [(''node_id'', JObj
              [(''type'', JStr ''string''),
               (''description'', JStr ''ID of the node (omit for current)'')]),
             (''bold'', JObj [(''type'', JStr ''boolean''), (''description'', JStr ''Make text bold'')]),
             (''italic'', JObj [(''type'', JStr ''boolean''), (''description'', JStr ''Make text italic'')]),
             (''size'', JObj
              [(''type'', JStr ''integer''),
               (''description'', JStr ''Font size in points'')])])]\<rparr>,
     \<lparr>tool_name = ''add_icon'',
      description = ''Add an icon to a node'',
      inputSchema = JObj
          [(''type'', JStr ''object''),
           (''properties'', JObj
            [(''node_id'', JObj
              [(''type'', JStr ''string''),
               (''description'', JStr ''ID of the node (omit for current)'')]),
             (''icon'', JObj
              [(''type'', JStr ''string''),
               (''description'', JStr ''Icon name (use list_icons to see available)'')])]),
           (''required'', JList [JStr ''icon''])]\<rparr>,
     \<lparr>tool_name = ''remove_icon'',
      description = ''Remove an icon from a node'',
      inputSchema = JObj
          [(''type'', JStr ''object''),
           (''properties'', JObj
            [(''node_id'', JObj
              [(''type'', JStr ''string''),
               (''description'', JStr ''ID of the node (omit for current)'')]),
             (''icon'', JObj [(''type'', JStr ''string''), (''description'', JStr ''Icon name to remove'')])]),
           (''required'', JList [JStr ''icon''])]\<rparr>,
     \<lparr>tool_name = ''list_icons'',
      description = ''List all available icons that can be added to nodes'',
      inputSchema = JObj [(''type'', JStr ''object''), (''properties'', JObj [])]\<rparr>,
     \<lparr>tool_name = ''add_connector'',
      description = ''Add a visual connector (arrow) between two nodes'',
      inputSchema = JObj
          [(''type'', JStr ''object''),
           (''properties'', JObj
            [(''source_id'', JObj
              [(''type'', JStr ''string''),
               (''description'', JStr ''ID of the source node'')]),
             (''target_id'', JObj
              [(''type'', JStr ''string''),
               (''description'', JStr ''ID of the target node'')]),
             (''label'', JObj
              [(''type'', JStr ''string''),
               (''description'', JStr ''Optional label for the connector'')])]),
           (''required'', JList [JStr ''source_id'', JStr ''target_id''])]\<rparr>,
     \<lparr>tool_name = ''remove_connector'',
      description = ''Remove a connector between two nodes'',
      inputSchema = JObj
          [(''type'', JStr ''object''),
           (''properties'', JObj
            [(''source_id'', JObj
              [(''type'', JStr ''string''),
               (''description'', JStr ''ID of the source node'')]),
             (''target_id'', JObj
              [(''type'', JStr ''string''),
               (''description'', JStr ''ID of the target node'')])]),
           (''required'', JList [JStr ''source_id'', JStr ''target_id''])]\<rparr>,
     \<lparr>tool_name = ''set_node_attribute'',
      description = ''Set a custom attribute (key-value pair) on a node'',
      inputSchema = JObj
          [(''type'', JStr ''object''),
           (''properties'', JObj
            [(''node_id'', JObj
              [(''type'', JStr ''string''),
               (''description'', JStr ''ID of the node (omit for current)'')]),
             (''name'', JObj [(''type'', JStr ''string''), (''description'', JStr ''Attribute name'')]),
             (''value'', JObj [(''type'', JStr ''string''), (''description'', JStr ''Attribute value'')])]),
           (''required'', JList [JStr ''name'', JStr ''value''])]\<rparr>,
     \<lparr>tool_name = ''get_node_attributes'',
      description = ''Get all attributes of a node'',
      inputSchema = JObj
          [(''type'', JStr ''object''),
           (''properties'', JObj
            [(''node_id'', JObj
              [(''type'', JStr ''string''),
               (''description'', JStr ''ID of the node (omit for current)'')])])]\<rparr>,
     \<lparr>tool_name = ''set_node_note'',
      description = ''Set or update the note text for a node'',
      inputSchema = JObj
          [(''type'', JStr ''object''),
           (''properties'', JObj
            [(''node_id'', JObj
              [(''type'', JStr ''string''),
               (''description'', JStr ''ID of the node (omit for current)'')]),
             (''text'', JObj
              [(''type'', JStr ''string''),
               (''description'', JStr ''Note text (supports HTML)'')])]),
           (''required'', JList [JStr ''text''])]\<rparr>,
     \<lparr>tool_name = ''get_node_note'',
      description = ''Get the note text of a node'',
      inputSchema = JObj
          [(''type'', JStr ''object''),
           (''properties'', JObj
            [(''node_id'', JObj
              [(''type'', JStr ''string''),
               (''description'', JStr ''ID of the node (omit for current)'')])])]\<rparr>,
     \<lparr>tool_name = ''fold_node'',
      description = ''Fold (collapse) a node to hide its children'',
      inputSchema = JObj
          [(''type'', JStr ''object''),
           (''properties'', JObj
            [(''node_id'', JObj
              [(''type'', JStr ''string''),
               (''description'', JStr ''ID of the node to fold'')])]),
           (''required'', JList [JStr ''node_id''])]\<rparr>,
     \<lparr>tool_name = ''unfold_node'',
      description = ''Unfold (expand) a node to show its children'',
      inputSchema = JObj
          [(''type'', JStr ''object''),
           (''properties'', JObj
            [(''node_id'', JObj
              [(''type'', JStr ''string''),
               (''description'', JStr ''ID of the node to unfold'')])]),
           (''required'', JList [JStr ''node_id''])]\<rparr>,
     \<lparr>tool_name = ''center_on_node'',
      description = ''Center the map view on a specific node'',
      inputSchema = JObj
          [(''type'', JStr ''object''),
           (''properties'', JObj
            [(''node_id'', JObj
              [(''type'', JStr ''string''),
               (''description'', JStr ''ID of the node to center on'')])]),
           (''required'', JList [JStr ''node_id''])]\<rparr>,
     \<lparr>tool_name = ''find_nodes'',
      description = ''Search for nodes containing specific text'',
      inputSchema = JObj
          [(''type'', JStr ''object''),
           (''properties'', JObj
            [(''text'', JObj [(''type'', JStr ''string''), (''description'', JStr ''Text to search for'')]),
             (''case_sensitive'', JObj
              [(''type'', JStr ''boolean''),
               (''description'', JStr ''Case-sensitive search''),
               (''default'', JBool False)])]),
           (''required'', JList [JStr ''text''])]\<rparr>]"

section \<open>The dispatcher\<close>

text \<open>
  A \<^verbatim>\<open>TextContent\<close> block. Its \<^verbatim>\<open>text\<close> is what \<^verbatim>\<open>json.dumps\<close> returned,
  represented by the document serialised.
\<close>

datatype TextContent = TextContent (content_type: string) (document: json)

definition command_map :: "(string \<times> string) list" where
  "command_map =
    [(''get_map_info'', ''get_map_info''),
     (''get_selected_node'', ''get_selected_node''),
     (''select_node'', ''select_node''),
     (''navigate_to_parent'', ''navigate_to_parent''),
     (''navigate_to_child'', ''navigate_to_child''),
     (''create_child_node'', ''create_child''),
     (''create_sibling_node'', ''create_sibling''),
     (''set_node_text'', ''set_node_text''),
     (''delete_node'', ''delete_node''),
     (''set_node_color'', ''set_node_color''),
     (''set_background_color'', ''set_background_color''),
     (''set_node_style'', ''set_node_style''),
     (''add_icon'', ''add_icon''),
     (''remove_icon'', ''remove_icon''),
     (''list_icons'', ''list_icons''),
     (''add_connector'', ''add_connector''),
     (''remove_connector'', ''remove_connector''),
     (''set_node_attribute'', ''set_attribute''),
     (''get_node_attributes'', ''get_attributes''),
     (''set_node_note'', ''set_note''),
     (''get_node_note'', ''get_note''),
     (''fold_node'', ''fold_node''),
     (''unfold_node'', ''unfold_node''),
     (''center_on_node'', ''center_on_node''),
     (''find_nodes'', ''find_nodes'')]"

text \<open>
  One of the three blocks of the font-formatting branch, which differ in the key and
  the bridge command only:
  \<^verbatim>\<open>if key in arguments:
      res = freeplane.execute(command, {"node_id": arguments.get("node_id"), key: arguments[key]})
      results.append(res)\<close>
\<close>

definition font_attribute ::
  "network \<Rightarrow> FreeplaneClient \<Rightarrow> string \<Rightarrow> string \<Rightarrow> json \<Rightarrow> json list \<Rightarrow> json list io" where
  "font_attribute net freeplane key command arguments results =
     io_bind (io_lift (py_in key arguments)) (\<lambda>present.
       if present then
         io_bind (io_lift (py_get arguments ''node_id'')) (\<lambda>node_id.
         io_bind (io_lift (py_getitem arguments key)) (\<lambda>v.
         io_bind (execute net freeplane command (JObj [(''node_id'', node_id), (key, v)])) (\<lambda>res.
         io_return (results @ [res]))))
       else io_return results)"

text \<open>
  \<^verbatim>\<open>all(r.get("success") for r in results if "success" in r)\<close>: the generator is
  consumed from the left and \<^verbatim>\<open>all\<close> stops at the first value that is not true.
\<close>

fun all_success :: "json list \<Rightarrow> exn + bool" where
  "all_success [] = Inr True"
| "all_success (r # rs) =
     (case py_in ''success'' r of
        Inl e \<Rightarrow> Inl e
      | Inr False \<Rightarrow> all_success rs
      | Inr True \<Rightarrow>
          (case py_get r ''success'' of
             Inl e \<Rightarrow> Inl e
           | Inr v \<Rightarrow> if truthy v then all_success rs else Inr False))"

text \<open>
  The body of the \<^verbatim>\<open>try\<close> statement of \<^verbatim>\<open>call_tool\<close>. Each \<^verbatim>\<open>return\<close> serialises
  its document inside the \<^verbatim>\<open>try\<close>.
\<close>

definition call_tool_body ::
  "network \<Rightarrow> nat \<Rightarrow> FreeplaneClient \<Rightarrow> string \<Rightarrow> json \<Rightarrow> TextContent list io" where
  "call_tool_body net headroom freeplane name arguments =
     (if name = ''check_connection'' then
        io_bind (check_connection net freeplane) (\<lambda>result.
        io_bind (io_lift (json_dumps headroom result)) (\<lambda>text.
        io_return [TextContent ''text'' text]))
      else if name = ''set_font_formatting'' then
        io_bind (font_attribute net freeplane ''bold'' ''set_font_bold'' arguments []) (\<lambda>results.
        io_bind (font_attribute net freeplane ''italic'' ''set_font_italic'' arguments results) (\<lambda>results.
        io_bind (font_attribute net freeplane ''size'' ''set_font_size'' arguments results) (\<lambda>results.
        io_bind (io_lift (all_success results)) (\<lambda>success.
        io_bind (io_lift (json_dumps headroom
          (JObj [(''results'', JList results), (''success'', JBool success)]))) (\<lambda>text.
        io_return [TextContent ''text'' text])))))
      else
        (case map_of command_map name of
           None \<Rightarrow>
             io_bind (io_lift (json_dumps headroom
               (JObj [(''error'', JStr (''Unknown tool: '' @ name))]))) (\<lambda>text.
             io_return [TextContent ''text'' text])
         | Some command \<Rightarrow>
             if command = [] then
               io_bind (io_lift (json_dumps headroom
                 (JObj [(''error'', JStr (''Unknown tool: '' @ name))]))) (\<lambda>text.
               io_return [TextContent ''text'' text])
             else
               io_bind (execute net freeplane command arguments) (\<lambda>result.
               io_bind (io_lift (json_dumps headroom result)) (\<lambda>text.
               io_return [TextContent ''text'' text]))))"

text \<open>\<^verbatim>\<open>call_tool\<close>: the body under \<^verbatim>\<open>except Exception as e\<close>.\<close>

definition call_tool ::
  "network \<Rightarrow> nat \<Rightarrow> FreeplaneClient \<Rightarrow> string \<Rightarrow> json \<Rightarrow> TextContent list io" where
  "call_tool net headroom freeplane name arguments =
     io_except (call_tool_body net headroom freeplane name arguments)
       (\<lambda>c. True)
       (\<lambda>e. io_bind (io_lift (json_dumps headroom
                (JObj [(''error'', JStr (message e)), (''tool'', JStr name)]))) (\<lambda>text.
            io_return [TextContent ''text'' text]))"

section \<open>Notions used in the statements\<close>

text \<open>A client on the default bridge address, for the concrete instances below.\<close>

definition localhost :: FreeplaneClient where
  "localhost = FreeplaneClient_init ''http://localhost:8765''"

text \<open>
  The request of the font-formatting sub-call for \<open>key\<close>, given the caller's mapping
  \<open>kvs\<close>: a POST to \<^verbatim>\<open>/execute\<close> whose \<^verbatim>\<open>params\<close> hold the node identifier
  (\<^verbatim>\<open>None\<close> when the caller gave none) and the one attribute.
\<close>

definition sub_call :: "FreeplaneClient \<Rightarrow> (string \<times> json) list \<Rightarrow> string \<Rightarrow> string \<Rightarrow> request" where
  "sub_call freeplane kvs key command =
     \<lparr>rq_method = POST,
      rq_url = base_url freeplane @ ''/execute'',
      rq_json = Some (JObj
        [(''command'', JStr command),
         (''params'', JObj
            [(''node_id'', case map_of kvs ''node_id'' of None \<Rightarrow> JNull | Some x \<Rightarrow> x),
             (key, case map_of kvs key of None \<Rightarrow> JNull | Some v \<Rightarrow> v)])]),
      rq_timeout = timeout freeplane\<rparr>"

text \<open>
  What \<^verbatim>\<open>execute\<close> returns for a reply of the network that it does not let through:
  the decoded body, or the error object of a transport failure.
\<close>

definition sub_result :: "reply \<Rightarrow> json" where
  "sub_result r = (case r of Inr j \<Rightarrow> j | Inl e \<Rightarrow> JObj [(''error'', JStr (message e))])"

text \<open>The attribute keys present in the caller's mapping, in the order of the source, with their bridge commands.\<close>

definition present_attributes :: "(string \<times> json) list \<Rightarrow> (string \<times> string) list" where
  "present_attributes kvs =
     filter (\<lambda>(key, command). key \<in> set (map fst kvs))
       [(''bold'', ''set_font_bold''), (''italic'', ''set_font_italic''), (''size'', ''set_font_size'')]"

text \<open>A reply after which \<^verbatim>\<open>execute\<close> returns: a body, or a transport failure.\<close>

fun returns :: "reply \<Rightarrow> bool" where
  "returns (Inr j) = True"
| "returns (Inl e) = is_RequestException (exc_class e)"

text \<open>A reply after which \<^verbatim>\<open>execute\<close> returns a JSON object: an object body, or a transport failure.\<close>

fun yields_object :: "reply \<Rightarrow> bool" where
  "yields_object (Inr (JObj kvs)) = True"
| "yields_object (Inr j) = False"
| "yields_object (Inl e) = is_RequestException (exc_class e)"

text \<open>The sub-results of one font-formatting call that starts after \<open>sent\<close>, in order.\<close>

definition sub_results :: "network \<Rightarrow> request list \<Rightarrow> (string \<times> json) list \<Rightarrow> json list" where
  "sub_results net sent kvs =
     map (\<lambda>i. sub_result (net (length sent + i))) [0..<length (present_attributes kvs)]"

text \<open>
  A network for the concrete instances: it answers the listed replies in turn and
  refuses every later connection.
\<close>

definition scripted :: "reply list \<Rightarrow> network" where
  "scripted rs = (\<lambda>i. if i < length rs then rs ! i else Inl (Exn ConnectionError ''Connection refused''))"

text \<open>
  A JSON object nested \<open>n\<close> levels below its top, for the concrete instances: the value of
  \<^verbatim>\<open>'{"a":' * n + '{}' + '}' * n\<close>.
\<close>

fun nested :: "nat \<Rightarrow> json" where
  "nested 0 = JObj []"
| "nested (Suc n) = JObj [(''a'', nested n)]"

section \<open>The transport and the branches of the dispatcher, computed\<close>

lemma execute_eq:
  "execute net freeplane command params sent =
     (case net (length sent) of
        Inr j \<Rightarrow> Inr j
      | Inl e \<Rightarrow> if is_RequestException (exc_class e)
                 then Inr (JObj [(''error'', JStr (message e))]) else Inl e,
      sent @ [\<lparr>rq_method = POST, rq_url = base_url freeplane @ ''/execute'',
               rq_json = Some (JObj [(''command'', JStr command),
                                     (''params'', if truthy params then params else JObj [])]),
               rq_timeout = timeout freeplane\<rparr>])"
  by (simp add: execute_def io_except_def requests_post_def io_return_def split: sum.splits)

lemma font_attribute_absent:
  "key \<notin> set (map fst kvs) \<Longrightarrow>
   font_attribute net freeplane key command (JObj kvs) results sent = (Inr results, sent)"
  by (simp add: font_attribute_def io_bind_def io_lift_def io_return_def)

lemma font_attribute_present:
  assumes "key \<in> set (map fst kvs)"
  shows "font_attribute net freeplane key command (JObj kvs) results sent =
     (case net (length sent) of
        Inr j \<Rightarrow> Inr (results @ [j])
      | Inl e \<Rightarrow> if is_RequestException (exc_class e)
                 then Inr (results @ [JObj [(''error'', JStr (message e))]]) else Inl e,
      sent @ [sub_call freeplane kvs key command])"
proof -
  from assms obtain v where v: "map_of kvs key = Some v"
    by (metis map_of_eq_None_iff not_Some_eq set_map)
  show ?thesis
    using assms v
    by (simp add: font_attribute_def io_bind_def io_lift_def io_return_def execute_eq sub_call_def
        split: sum.splits option.splits)
qed

lemma font_attribute_returns:
  assumes "key \<in> set (map fst kvs)" and "returns (net (length sent))"
  shows "font_attribute net freeplane key command (JObj kvs) results sent =
     (Inr (results @ [sub_result (net (length sent))]), sent @ [sub_call freeplane kvs key command])"
  using assms(2)
  by (cases "net (length sent)") (simp_all add: font_attribute_present[OF assms(1)] sub_result_def)

lemma json_dumps_fits:
  "nesting doc \<le> 3 + headroom \<Longrightarrow> json_dumps headroom doc = Inr doc"
  by (simp add: json_dumps_def)

lemma json_dumps_deep:
  "\<not> nesting doc \<le> 3 + headroom \<Longrightarrow>
   json_dumps headroom doc =
     Inl (Exn RecursionError ''maximum recursion depth exceeded while calling a Python object'')"
  by (simp add: json_dumps_def)

lemma foldr_max_nesting:
  "\<forall>r \<in> set rs. nesting r \<le> m \<Longrightarrow> foldr max (map nesting rs) 0 \<le> m"
  by (induction rs) auto

lemma body_single:
  "call_tool_body net headroom freeplane name arguments sent = (Inr r, sent') \<Longrightarrow>
   \<exists>doc. r = [TextContent ''text'' doc]"
  by (auto simp: call_tool_body_def io_bind_def io_return_def io_lift_def
      split: if_splits prod.splits sum.splits option.splits)

lemma call_tool_eq:
  "call_tool net headroom freeplane name arguments sent =
     (case call_tool_body net headroom freeplane name arguments sent of
        (Inl e, sent') \<Rightarrow>
          (Inr [TextContent ''text'' (JObj [(''error'', JStr (message e)), (''tool'', JStr name)])], sent')
      | (Inr r, sent') \<Rightarrow> (Inr r, sent'))"
  by (simp add: call_tool_def io_except_def io_bind_def io_lift_def io_return_def json_dumps_def
      split: prod.splits sum.splits)

lemma map_of_command_map:
  "map_of command_map name = Some command \<Longrightarrow>
   command \<noteq> [] \<and> name \<noteq> ''check_connection'' \<and> name \<noteq> ''set_font_formatting''"
  by (auto simp: command_map_def split: if_splits)

lemma call_tool_mapped:
  assumes "map_of command_map name = Some command"
  shows "call_tool net headroom freeplane name arguments sent =
     (Inr [TextContent ''text''
        (case net (length sent) of
           Inr j \<Rightarrow>
             if nesting j \<le> 3 + headroom then j
             else JObj [(''error'', JStr ''maximum recursion depth exceeded while calling a Python object''),
                        (''tool'', JStr name)]
         | Inl e \<Rightarrow> if is_RequestException (exc_class e)
                    then JObj [(''error'', JStr (message e))]
                    else JObj [(''error'', JStr (message e)), (''tool'', JStr name)])],
      sent @ [\<lparr>rq_method = POST, rq_url = base_url freeplane @ ''/execute'',
               rq_json = Some (JObj [(''command'', JStr command),
                                     (''params'', if truthy arguments then arguments else JObj [])]),
               rq_timeout = timeout freeplane\<rparr>])"
  using map_of_command_map[OF assms] assms
  by (simp add: call_tool_eq call_tool_body_def io_bind_def io_lift_def io_return_def execute_eq
      json_dumps_def split: sum.splits)

lemma font_collect:
  assumes "\<forall>i < length (present_attributes kvs). returns (net (length sent + i))"
  shows "io_bind (font_attribute net freeplane ''bold'' ''set_font_bold'' (JObj kvs) [])
           (\<lambda>r1. io_bind (font_attribute net freeplane ''italic'' ''set_font_italic'' (JObj kvs) r1)
           (\<lambda>r2. io_bind (font_attribute net freeplane ''size'' ''set_font_size'' (JObj kvs) r2) k)) sent =
         k (map (\<lambda>i. sub_result (net (length sent + i))) [0..<length (present_attributes kvs)])
           (sent @ map (\<lambda>(key, command). sub_call freeplane kvs key command) (present_attributes kvs))"
proof -
  consider
      (bis) "''bold'' \<in> set (map fst kvs)" "''italic'' \<in> set (map fst kvs)" "''size'' \<in> set (map fst kvs)"
    | (bi) "''bold'' \<in> set (map fst kvs)" "''italic'' \<in> set (map fst kvs)" "''size'' \<notin> set (map fst kvs)"
    | (bs) "''bold'' \<in> set (map fst kvs)" "''italic'' \<notin> set (map fst kvs)" "''size'' \<in> set (map fst kvs)"
    | (b) "''bold'' \<in> set (map fst kvs)" "''italic'' \<notin> set (map fst kvs)" "''size'' \<notin> set (map fst kvs)"
    | (its) "''bold'' \<notin> set (map fst kvs)" "''italic'' \<in> set (map fst kvs)" "''size'' \<in> set (map fst kvs)"
    | (i) "''bold'' \<notin> set (map fst kvs)" "''italic'' \<in> set (map fst kvs)" "''size'' \<notin> set (map fst kvs)"
    | (s) "''bold'' \<notin> set (map fst kvs)" "''italic'' \<notin> set (map fst kvs)" "''size'' \<in> set (map fst kvs)"
    | (none) "''bold'' \<notin> set (map fst kvs)" "''italic'' \<notin> set (map fst kvs)" "''size'' \<notin> set (map fst kvs)"
    by blast
  then show ?thesis
  proof cases
    case bis
    then have p: "present_attributes kvs =
        [(''bold'', ''set_font_bold''), (''italic'', ''set_font_italic''), (''size'', ''set_font_size'')]"
      by (simp add: present_attributes_def)
    from assms p have r: "returns (net (length sent))" "returns (net (Suc (length sent)))"
        "returns (net (Suc (Suc (length sent))))"
      by (auto dest: spec[of _ 0] spec[of _ 1] spec[of _ 2])
    have u: "[0..<3] = [0, Suc 0, Suc (Suc 0)]"
      by (simp add: upt_rec numeral_3_eq_3)
    show ?thesis
      using bis r by (simp add: p u io_bind_def font_attribute_returns)
  next
    case bi
    then have p: "present_attributes kvs = [(''bold'', ''set_font_bold''), (''italic'', ''set_font_italic'')]"
      by (simp add: present_attributes_def)
    from assms p have r: "returns (net (length sent))" "returns (net (Suc (length sent)))"
      by (auto dest: spec[of _ 0] spec[of _ 1])
    have u: "[0..<2] = [0, Suc 0]"
      by (simp add: upt_rec numeral_2_eq_2)
    show ?thesis
      using bi r by (simp add: p u io_bind_def font_attribute_returns font_attribute_absent)
  next
    case bs
    then have p: "present_attributes kvs = [(''bold'', ''set_font_bold''), (''size'', ''set_font_size'')]"
      by (simp add: present_attributes_def)
    from assms p have r: "returns (net (length sent))" "returns (net (Suc (length sent)))"
      by (auto dest: spec[of _ 0] spec[of _ 1])
    have u: "[0..<2] = [0, Suc 0]"
      by (simp add: upt_rec numeral_2_eq_2)
    show ?thesis
      using bs r by (simp add: p u io_bind_def font_attribute_returns font_attribute_absent)
  next
    case b
    then have p: "present_attributes kvs = [(''bold'', ''set_font_bold'')]"
      by (simp add: present_attributes_def)
    from assms p have r: "returns (net (length sent))"
      by (auto dest: spec[of _ 0])
    show ?thesis
      using b r by (simp add: p io_bind_def font_attribute_returns font_attribute_absent)
  next
    case its
    then have p: "present_attributes kvs = [(''italic'', ''set_font_italic''), (''size'', ''set_font_size'')]"
      by (simp add: present_attributes_def)
    from assms p have r: "returns (net (length sent))" "returns (net (Suc (length sent)))"
      by (auto dest: spec[of _ 0] spec[of _ 1])
    have u: "[0..<2] = [0, Suc 0]"
      by (simp add: upt_rec numeral_2_eq_2)
    show ?thesis
      using its r by (simp add: p u io_bind_def font_attribute_returns font_attribute_absent)
  next
    case i
    then have p: "present_attributes kvs = [(''italic'', ''set_font_italic'')]"
      by (simp add: present_attributes_def)
    from assms p have r: "returns (net (length sent))"
      by (auto dest: spec[of _ 0])
    show ?thesis
      using i r by (simp add: p io_bind_def font_attribute_returns font_attribute_absent)
  next
    case s
    then have p: "present_attributes kvs = [(''size'', ''set_font_size'')]"
      by (simp add: present_attributes_def)
    from assms p have r: "returns (net (length sent))"
      by (auto dest: spec[of _ 0])
    show ?thesis
      using s r by (simp add: p io_bind_def font_attribute_returns font_attribute_absent)
  next
    case none
    then have p: "present_attributes kvs = []"
      by (simp add: present_attributes_def)
    show ?thesis
      using none by (simp add: p io_bind_def font_attribute_absent)
  qed
qed

lemma all_success_objects:
  "\<forall>r \<in> set rs. \<exists>kvs. r = JObj kvs \<Longrightarrow>
   all_success rs =
     Inr (\<forall>r \<in> set rs. py_in ''success'' r = Inr True \<longrightarrow>
            (\<exists>v. py_get r ''success'' = Inr v \<and> truthy v))"
proof (induction rs)
  case Nil
  then show ?case by simp
next
  case (Cons r rs)
  then obtain kvs where r: "r = JObj kvs" by auto
  from Cons have ih: "all_success rs =
     Inr (\<forall>r \<in> set rs. py_in ''success'' r = Inr True \<longrightarrow>
            (\<exists>v. py_get r ''success'' = Inr v \<and> truthy v))"
    by simp
  show ?case
    by (cases "''success'' \<in> fst ` set kvs") (simp_all add: r ih)
qed

lemma call_tool_sent:
  "snd (call_tool net headroom freeplane name arguments sent) =
     snd (call_tool_body net headroom freeplane name arguments sent)"
  by (simp add: call_tool_eq split: prod.splits sum.splits)

lemma font_body:
  "call_tool_body net headroom freeplane ''set_font_formatting'' arguments =
     io_bind (font_attribute net freeplane ''bold'' ''set_font_bold'' arguments []) (\<lambda>results.
     io_bind (font_attribute net freeplane ''italic'' ''set_font_italic'' arguments results) (\<lambda>results.
     io_bind (font_attribute net freeplane ''size'' ''set_font_size'' arguments results) (\<lambda>results.
     io_bind (io_lift (all_success results)) (\<lambda>success.
     io_bind (io_lift (json_dumps headroom
       (JObj [(''results'', JList results), (''success'', JBool success)]))) (\<lambda>text.
     io_return [TextContent ''text'' text])))))"
  by (simp add: call_tool_body_def)

lemma font_sent_prefix:
  "\<exists>new. snd (call_tool net headroom freeplane ''set_font_formatting'' (JObj kvs) sent) = sent @ new \<and>
     prefix new (map (\<lambda>(key, command). sub_call freeplane kvs key command) (present_attributes kvs)) \<and>
     (present_attributes kvs \<noteq> [] \<longrightarrow> new \<noteq> [])"
proof -
  consider
      (bis) "''bold'' \<in> set (map fst kvs)" "''italic'' \<in> set (map fst kvs)" "''size'' \<in> set (map fst kvs)"
    | (bi) "''bold'' \<in> set (map fst kvs)" "''italic'' \<in> set (map fst kvs)" "''size'' \<notin> set (map fst kvs)"
    | (bs) "''bold'' \<in> set (map fst kvs)" "''italic'' \<notin> set (map fst kvs)" "''size'' \<in> set (map fst kvs)"
    | (b) "''bold'' \<in> set (map fst kvs)" "''italic'' \<notin> set (map fst kvs)" "''size'' \<notin> set (map fst kvs)"
    | (its) "''bold'' \<notin> set (map fst kvs)" "''italic'' \<in> set (map fst kvs)" "''size'' \<in> set (map fst kvs)"
    | (i) "''bold'' \<notin> set (map fst kvs)" "''italic'' \<in> set (map fst kvs)" "''size'' \<notin> set (map fst kvs)"
    | (s) "''bold'' \<notin> set (map fst kvs)" "''italic'' \<notin> set (map fst kvs)" "''size'' \<in> set (map fst kvs)"
    | (none) "''bold'' \<notin> set (map fst kvs)" "''italic'' \<notin> set (map fst kvs)" "''size'' \<notin> set (map fst kvs)"
    by blast
  then show ?thesis
  proof cases
    case bis
    then show ?thesis
      by (simp add: call_tool_sent font_body present_attributes_def io_bind_def io_lift_def
          io_return_def font_attribute_present split: sum.splits prod.splits)
  next
    case bi
    then show ?thesis
      by (simp add: call_tool_sent font_body present_attributes_def io_bind_def io_lift_def
          io_return_def font_attribute_present font_attribute_absent split: sum.splits prod.splits)
  next
    case bs
    then show ?thesis
      by (simp add: call_tool_sent font_body present_attributes_def io_bind_def io_lift_def
          io_return_def font_attribute_present font_attribute_absent split: sum.splits prod.splits)
  next
    case b
    then show ?thesis
      by (simp add: call_tool_sent font_body present_attributes_def io_bind_def io_lift_def
          io_return_def font_attribute_present font_attribute_absent split: sum.splits prod.splits)
  next
    case its
    then show ?thesis
      by (simp add: call_tool_sent font_body present_attributes_def io_bind_def io_lift_def
          io_return_def font_attribute_present font_attribute_absent split: sum.splits prod.splits)
  next
    case i
    then show ?thesis
      by (simp add: call_tool_sent font_body present_attributes_def io_bind_def io_lift_def
          io_return_def font_attribute_present font_attribute_absent split: sum.splits prod.splits)
  next
    case s
    then show ?thesis
      by (simp add: call_tool_sent font_body present_attributes_def io_bind_def io_lift_def
          io_return_def font_attribute_present font_attribute_absent split: sum.splits prod.splits)
  next
    case none
    then show ?thesis
      by (simp add: call_tool_sent font_body present_attributes_def io_bind_def io_lift_def
          io_return_def font_attribute_absent split: sum.splits prod.splits)
  qed
qed

lemma font_call_returns:
  assumes "\<forall>i < length (present_attributes kvs). returns (net (length sent + i))"
  shows "call_tool net headroom freeplane ''set_font_formatting'' (JObj kvs) sent =
     (case all_success (sub_results net sent kvs) of
        Inr success \<Rightarrow>
          if foldr max (map nesting (sub_results net sent kvs)) 0 \<le> Suc headroom
          then Inr [TextContent ''text''
            (JObj [(''results'', JList (sub_results net sent kvs)), (''success'', JBool success)])]
          else Inr [TextContent ''text''
            (JObj [(''error'', JStr ''maximum recursion depth exceeded while calling a Python object''),
                   (''tool'', JStr ''set_font_formatting'')])]
      | Inl e \<Rightarrow> Inr [TextContent ''text''
          (JObj [(''error'', JStr (message e)), (''tool'', JStr ''set_font_formatting'')])],
      sent @ map (\<lambda>(key, command). sub_call freeplane kvs key command) (present_attributes kvs))"
proof -
  have "call_tool_body net headroom freeplane ''set_font_formatting'' (JObj kvs) sent =
      io_bind (io_lift (all_success (sub_results net sent kvs)))
        (\<lambda>success. io_bind (io_lift (json_dumps headroom
           (JObj [(''results'', JList (sub_results net sent kvs)), (''success'', JBool success)])))
           (\<lambda>text. io_return [TextContent ''text'' text]))
        (sent @ map (\<lambda>(key, command). sub_call freeplane kvs key command) (present_attributes kvs))"
    by (simp only: font_body font_collect[OF assms] sub_results_def)
  then show ?thesis
    by (simp add: call_tool_eq io_bind_def io_lift_def io_return_def json_dumps_def
        split: sum.splits)
qed

lemma yields_object_returns: "yields_object r \<Longrightarrow> returns r"
  by (cases r) (simp_all)

lemma yields_object_sub_result: "yields_object r \<Longrightarrow> \<exists>kvs. sub_result r = JObj kvs"
  by (induction r rule: yields_object.induct) (simp_all add: sub_result_def)

lemma all_success_errors:
  "\<forall>r \<in> set rs. \<exists>d. r = JObj [(''error'', JStr d)] \<Longrightarrow> all_success rs = Inr True"
  by (induction rs) auto

lemma nesting_nested: "nesting (nested n) = Suc n"
  by (induction n) simp_all

lemma py_in_nested: "py_in ''success'' (nested n) = Inr False"
  by (cases n) simp_all

lemma all_success_nested: "all_success [nested n] = Inr True"
  by (simp add: py_in_nested)

section \<open>The dispatcher always answers with one document\<close>

text \<open>
  Claim C1. For every tool name and every value of \<^verbatim>\<open>arguments\<close>, whatever the network
  answers and whatever room the encoder has, one call of \<^verbatim>\<open>call_tool\<close> returns a list of
  exactly one text block holding a JSON document and raises nothing. When the body of the
  \<^verbatim>\<open>try\<close> statement raises an exception \<open>e\<close> (in the handling of the arguments, in
  the transport, in the aggregation or in the serialisation), the document is the error
  object with the text of \<open>e\<close> and the tool name. The requests attempted are those of the
  body.
\<close>

theorem call_tool_one_document:
  "\<exists>doc sent'.
     call_tool net headroom freeplane name arguments sent = (Inr [TextContent ''text'' doc], sent') \<and>
     sent' = snd (call_tool_body net headroom freeplane name arguments sent) \<and>
     (\<forall>e. fst (call_tool_body net headroom freeplane name arguments sent) = Inl e \<longrightarrow>
        doc = JObj [(''error'', JStr (message e)), (''tool'', JStr name)])"
proof (cases "call_tool_body net headroom freeplane name arguments sent")
  case (Pair r sent')
  show ?thesis
  proof (cases r)
    case (Inl e)
    with Pair show ?thesis
      by (simp add: call_tool_eq)
  next
    case (Inr out)
    with Pair obtain doc where "out = [TextContent ''text'' doc]"
      using body_single by blast
    with Pair Inr show ?thesis
      by (simp add: call_tool_eq)
  qed
qed

text \<open>
  Two instances. The fault is in the handling of the arguments: \<^verbatim>\<open>arguments\<close> is
  \<^verbatim>\<open>None\<close>, so \<^verbatim>\<open>"bold" in arguments\<close> raises \<^verbatim>\<open>TypeError\<close>. The fault is in the
  serialisation: the bridge answers an object nested 994 levels, too deep for the encoder
  once it is inside the composite.
\<close>

theorem call_tool_one_document_witness:
  "fst (call_tool_body (scripted []) 993 localhost ''set_font_formatting'' JNull []) =
     Inl (Exn TypeError (''argument of type '' @ quoted ''NoneType'' @ '' is not iterable'')) \<and>
   call_tool (scripted []) 993 localhost ''set_font_formatting'' JNull [] =
     (Inr [TextContent ''text''
        (JObj [(''error'', JStr (''argument of type '' @ quoted ''NoneType'' @ '' is not iterable'')),
               (''tool'', JStr ''set_font_formatting'')])], []) \<and>
   fst (call_tool_body (scripted [Inr (nested 994)]) 993 localhost ''set_font_formatting''
          (JObj [(''size'', JInt 12)]) []) =
     Inl (Exn RecursionError ''maximum recursion depth exceeded while calling a Python object'') \<and>
   fst (call_tool (scripted [Inr (nested 994)]) 993 localhost ''set_font_formatting''
          (JObj [(''size'', JInt 12)]) []) =
     Inr [TextContent ''text''
        (JObj [(''error'', JStr ''maximum recursion depth exceeded while calling a Python object''),
               (''tool'', JStr ''set_font_formatting'')])]"
proof -
  have body: "call_tool_body (scripted []) 993 localhost ''set_font_formatting'' JNull [] =
     (Inl (Exn TypeError (''argument of type '' @ quoted ''NoneType'' @ '' is not iterable'')), [])"
    by (simp add: call_tool_body_def font_attribute_def io_bind_def io_lift_def)
  have deep: "fst (call_tool_body (scripted [Inr (nested 994)]) 993 localhost ''set_font_formatting''
          (JObj [(''size'', JInt 12)]) []) =
     Inl (Exn RecursionError ''maximum recursion depth exceeded while calling a Python object'')"
    by (simp add: font_body io_bind_def io_lift_def io_return_def font_attribute_present
        font_attribute_absent scripted_def py_in_nested json_dumps_def nesting_nested)
  from call_tool_one_document [of "scripted []" 993 localhost "''set_font_formatting''" JNull "[]"]
    call_tool_one_document [of "scripted [Inr (nested 994)]" 993 localhost "''set_font_formatting''"
      "JObj [(''size'', JInt 12)]" "[]"]
  show ?thesis
    by (auto simp: body deep)
qed

section \<open>Unknown tools\<close>

text \<open>
  Claim C6. For every tool name that is neither \<^verbatim>\<open>check_connection\<close> nor
  \<^verbatim>\<open>set_font_formatting\<close> nor a key of \<^verbatim>\<open>command_map\<close>, and every value of
  \<^verbatim>\<open>arguments\<close>, the call returns the one document
  \<^verbatim>\<open>{"error": "Unknown tool: <name>"}\<close>, attempts no request (the list of requests is
  unchanged) and raises nothing.
\<close>

theorem unknown_tool:
  assumes "name \<noteq> ''check_connection''" and "name \<noteq> ''set_font_formatting''"
    and "map_of command_map name = None"
  shows "call_tool net headroom freeplane name arguments sent =
     (Inr [TextContent ''text'' (JObj [(''error'', JStr (''Unknown tool: '' @ name))])], sent)"
  using assms
  by (simp add: call_tool_eq call_tool_body_def io_bind_def io_lift_def io_return_def json_dumps_def)

theorem unknown_tool_witness:
  "''bogus_tool'' \<noteq> ''check_connection'' \<and> ''bogus_tool'' \<noteq> ''set_font_formatting'' \<and>
   map_of command_map ''bogus_tool'' = None \<and>
   call_tool (scripted [Inr (JObj [(''success'', JBool True)])]) 993 localhost ''bogus_tool''
       (JObj [(''x'', JInt 1)]) [] =
     (Inr [TextContent ''text'' (JObj [(''error'', JStr ''Unknown tool: bogus_tool'')])], [])"
proof -
  have a: "''bogus_tool'' \<noteq> ''check_connection''" and b: "''bogus_tool'' \<noteq> ''set_font_formatting''"
    by simp_all
  have c: "map_of command_map ''bogus_tool'' = None"
    by (simp add: command_map_def)
  from unknown_tool [OF a b c, of "scripted [Inr (JObj [(''success'', JBool True)])]" 993 localhost
      "JObj [(''x'', JInt 1)]" "[]"] a b c
  show ?thesis by simp
qed

section \<open>Every tool of the catalog is resolved\<close>

lemma font_body_shape:
  "call_tool_body net headroom freeplane ''set_font_formatting'' arguments sent = (Inr r, sent') \<Longrightarrow>
   \<exists>results success. r = [TextContent ''text''
      (JObj [(''results'', JList results), (''success'', JBool success)])]"
  by (auto simp: font_body io_bind_def io_return_def io_lift_def json_dumps_def
      split: prod.splits sum.splits if_splits)

lemma font_not_unknown:
  "fst (call_tool net headroom freeplane ''set_font_formatting'' arguments sent) \<noteq>
     Inr [TextContent ''text'' (JObj [(''error'', JStr msg)])]"
proof (cases "call_tool_body net headroom freeplane ''set_font_formatting'' arguments sent")
  case (Pair r sent')
  show ?thesis
  proof (cases r)
    case (Inl e)
    with Pair show ?thesis
      by (simp add: call_tool_eq)
  next
    case (Inr out)
    with Pair font_body_shape obtain results success where
      "out = [TextContent ''text'' (JObj [(''results'', JList results), (''success'', JBool success)])]"
      by blast
    with Pair Inr show ?thesis
      by (simp add: call_tool_eq)
  qed
qed

lemma check_connection_sent:
  "snd (call_tool net headroom freeplane ''check_connection'' arguments sent) =
     sent @ [\<lparr>rq_method = GET, rq_url = base_url freeplane @ ''/status'', rq_json = None,
               rq_timeout = timeout freeplane\<rparr>]"
  by (simp add: call_tool_sent call_tool_body_def io_bind_def io_lift_def check_connection_def
      io_except_def requests_get_def io_return_def split: sum.splits)

lemma resolved_not_unknown:
  assumes "name = ''check_connection'' \<or> name \<in> dom (map_of command_map) \<or>
           name = ''set_font_formatting''"
  shows "call_tool net headroom freeplane name arguments sent \<noteq>
     (Inr [TextContent ''text'' (JObj [(''error'', JStr (''Unknown tool: '' @ name))])], sent)"
proof -
  consider (cc) "name = ''check_connection''" | (font) "name = ''set_font_formatting''"
    | (mapped) command where "map_of command_map name = Some command"
    using assms by auto
  then show ?thesis
  proof cases
    case cc
    have "snd (call_tool net headroom freeplane ''check_connection'' arguments sent) \<noteq> sent"
      by (simp add: check_connection_sent)
    with cc show ?thesis by (metis snd_conv)
  next
    case font
    with font_not_unknown [of net headroom freeplane arguments sent] show ?thesis
      by (metis fst_conv)
  next
    case mapped
    have "snd (call_tool net headroom freeplane name arguments sent) \<noteq> sent"
      by (simp add: call_tool_mapped [OF mapped])
    then show ?thesis by (metis snd_conv)
  qed
qed

lemma catalog_names:
  "map tool_name list_tools =
    [''check_connection'', ''get_map_info'', ''get_selected_node'', ''select_node'',
     ''navigate_to_parent'', ''navigate_to_child'', ''create_child_node'', ''create_sibling_node'',
     ''set_node_text'', ''delete_node'', ''set_node_color'', ''set_background_color'',
     ''set_node_style'', ''set_font_formatting'', ''add_icon'', ''remove_icon'', ''list_icons'',
     ''add_connector'', ''remove_connector'', ''set_node_attribute'', ''get_node_attributes'',
     ''set_node_note'', ''get_node_note'', ''fold_node'', ''unfold_node'', ''center_on_node'',
     ''find_nodes'']"
  by (simp add: list_tools_def)

lemma catalog_partition:
  "\<forall>n \<in> set (map tool_name list_tools).
     n = ''check_connection'' \<or> n \<in> dom (map_of command_map) \<or> n = ''set_font_formatting''"
  unfolding catalog_names by (simp add: command_map_def dom_def)

text \<open>
  Claim C2. Every tool name of the catalog returned by \<^verbatim>\<open>list_tools\<close> is
  \<^verbatim>\<open>check_connection\<close>, or a key of \<^verbatim>\<open>command_map\<close> (bound to a command that is
  not empty, so that \<^verbatim>\<open>not command\<close> is false), or \<^verbatim>\<open>set_font_formatting\<close>.
  So no tool of the catalog is answered as an unknown tool: whatever the arguments and the
  network, the call does not end as an unknown name does, with the document
  \<^verbatim>\<open>{"error": "Unknown tool: <name>"}\<close> and no request attempted.
\<close>

theorem catalog_resolved:
  "\<forall>t \<in> set list_tools.
     (tool_name t = ''check_connection'' \<or>
      (\<exists>command. map_of command_map (tool_name t) = Some command \<and> command \<noteq> []) \<or>
      tool_name t = ''set_font_formatting'') \<and>
     (\<forall>net headroom freeplane arguments sent.
        call_tool net headroom freeplane (tool_name t) arguments sent \<noteq>
          (Inr [TextContent ''text'' (JObj [(''error'', JStr (''Unknown tool: '' @ tool_name t))])], sent))"
proof
  fix t
  assume "t \<in> set list_tools"
  then have "tool_name t \<in> set (map tool_name list_tools)" by simp
  with catalog_partition have p: "tool_name t = ''check_connection'' \<or>
      tool_name t \<in> dom (map_of command_map) \<or> tool_name t = ''set_font_formatting''"
    by blast
  then have q: "tool_name t = ''check_connection'' \<or>
      (\<exists>command. map_of command_map (tool_name t) = Some command \<and> command \<noteq> []) \<or>
      tool_name t = ''set_font_formatting''"
    using map_of_command_map by blast
  from p resolved_not_unknown have "\<forall>net headroom freeplane arguments sent.
        call_tool net headroom freeplane (tool_name t) arguments sent \<noteq>
          (Inr [TextContent ''text'' (JObj [(''error'', JStr (''Unknown tool: '' @ tool_name t))])], sent)"
    by blast
  with q show "(tool_name t = ''check_connection'' \<or>
      (\<exists>command. map_of command_map (tool_name t) = Some command \<and> command \<noteq> []) \<or>
      tool_name t = ''set_font_formatting'') \<and>
     (\<forall>net headroom freeplane arguments sent.
        call_tool net headroom freeplane (tool_name t) arguments sent \<noteq>
          (Inr [TextContent ''text'' (JObj [(''error'', JStr (''Unknown tool: '' @ tool_name t))])], sent))"
    by (rule conjI)
qed

theorem catalog_resolved_witness:
  "list_tools ! 6 \<in> set list_tools \<and> tool_name (list_tools ! 6) = ''create_child_node'' \<and>
   map_of command_map ''create_child_node'' = Some ''create_child'' \<and>
   call_tool (scripted []) 993 localhost ''create_child_node'' (JObj []) [] \<noteq>
     (Inr [TextContent ''text'' (JObj [(''error'', JStr ''Unknown tool: create_child_node'')])], [])"
proof -
  have l: "length list_tools = 27"
    using arg_cong [OF catalog_names, of length] by simp
  then have m: "list_tools ! 6 \<in> set list_tools" by simp
  have n: "tool_name (list_tools ! 6) = ''create_child_node''"
    using arg_cong [OF catalog_names, of "\<lambda>xs. xs ! 6"] l by simp
  have c: "map_of command_map ''create_child_node'' = Some ''create_child''"
    by (simp add: command_map_def)
  from bspec [OF catalog_resolved m]
  have "\<forall>net headroom freeplane arguments sent.
        call_tool net headroom freeplane (tool_name (list_tools ! 6)) arguments sent \<noteq>
          (Inr [TextContent ''text''
             (JObj [(''error'', JStr (''Unknown tool: '' @ tool_name (list_tools ! 6)))])], sent)"
    by (rule conjunct2)
  then have "call_tool (scripted []) 993 localhost (tool_name (list_tools ! 6)) (JObj []) [] \<noteq>
          (Inr [TextContent ''text''
             (JObj [(''error'', JStr (''Unknown tool: '' @ tool_name (list_tools ! 6)))])], [])"
    by blast
  with m n c show ?thesis
    by simp
qed

section \<open>Ordinary tools: the arguments reach the bridge unchanged\<close>

text \<open>
  Claim C7. For every tool that \<^verbatim>\<open>command_map\<close> resolves (the tools that are neither
  \<^verbatim>\<open>check_connection\<close> nor the composite \<^verbatim>\<open>set_font_formatting\<close>) and every argument
  mapping, the body of the dispatcher is the call of \<^verbatim>\<open>execute\<close> on the resolved command
  and the caller's mapping itself, followed by the serialisation of its result, and the
  call attempts exactly one request, a POST to \<^verbatim>\<open>/execute\<close> whose \<^verbatim>\<open>params\<close> field is
  the caller's mapping: no key renamed or dropped, no value changed.
\<close>

theorem arguments_forwarded:
  assumes "map_of command_map name = Some command"
  shows "call_tool_body net headroom freeplane name (JObj kvs) =
       io_bind (execute net freeplane command (JObj kvs)) (\<lambda>result.
       io_bind (io_lift (json_dumps headroom result)) (\<lambda>text.
       io_return [TextContent ''text'' text])) \<and>
     snd (call_tool net headroom freeplane name (JObj kvs) sent) =
       sent @ [\<lparr>rq_method = POST, rq_url = base_url freeplane @ ''/execute'',
                 rq_json = Some (JObj [(''command'', JStr command), (''params'', JObj kvs)]),
                 rq_timeout = timeout freeplane\<rparr>]"
proof
  from map_of_command_map [OF assms] assms
  show "call_tool_body net headroom freeplane name (JObj kvs) =
       io_bind (execute net freeplane command (JObj kvs)) (\<lambda>result.
       io_bind (io_lift (json_dumps headroom result)) (\<lambda>text.
       io_return [TextContent ''text'' text]))"
    by (simp add: call_tool_body_def)
next
  show "snd (call_tool net headroom freeplane name (JObj kvs) sent) =
       sent @ [\<lparr>rq_method = POST, rq_url = base_url freeplane @ ''/execute'',
                 rq_json = Some (JObj [(''command'', JStr command), (''params'', JObj kvs)]),
                 rq_timeout = timeout freeplane\<rparr>]"
    by (cases kvs) (simp_all add: call_tool_mapped [OF assms])
qed

theorem arguments_forwarded_witness:
  "map_of command_map ''create_child_node'' = Some ''create_child'' \<and>
   snd (call_tool (scripted [Inr (JObj [(''success'', JBool True)])]) 993 localhost ''create_child_node''
         (JObj [(''text'', JStr ''idea''), (''position'', JStr ''left''), (''extra'', JNull)]) []) =
     [\<lparr>rq_method = POST, rq_url = ''http://localhost:8765/execute'',
       rq_json = Some (JObj [(''command'', JStr ''create_child''),
          (''params'', JObj [(''text'', JStr ''idea''), (''position'', JStr ''left''), (''extra'', JNull)])]),
       rq_timeout = 10\<rparr>]"
proof -
  have a: "map_of command_map ''create_child_node'' = Some ''create_child''"
    by (simp add: command_map_def)
  from arguments_forwarded [OF a, of "scripted [Inr (JObj [(''success'', JBool True)])]" 993 localhost
      "[(''text'', JStr ''idea''), (''position'', JStr ''left''), (''extra'', JNull)]" "[]"] a
  show ?thesis
    by (simp add: localhost_def FreeplaneClient_init_def)
qed

section \<open>Transport failures become results\<close>

text \<open>
  Claim C8, for the failures the transport catches. When the HTTP exchange fails with an
  exception \<open>e\<close>, both methods have attempted their request. If \<open>e\<close> is a
  \<^verbatim>\<open>requests.RequestException\<close> (a refused connection, a timeout, a body that is not
  JSON), \<^verbatim>\<open>check_connection\<close> returns an object with the fields \<^verbatim>\<open>error\<close>,
  \<^verbatim>\<open>details\<close> (the text of \<open>e\<close>) and \<^verbatim>\<open>hint\<close>, and \<^verbatim>\<open>execute\<close> returns an object
  with the one field \<^verbatim>\<open>error\<close> (the text of \<open>e\<close>); neither raises. If \<open>e\<close> is of any
  other class, both methods raise \<open>e\<close>: \<^verbatim>\<open>except requests.RequestException\<close> does not
  catch it, and it is the handler of \<^verbatim>\<open>call_tool\<close> that turns it into a result.
\<close>

theorem transport_failure_results:
  assumes "net (length sent) = Inl e"
  shows "check_connection net self sent =
       (if is_RequestException (exc_class e)
        then Inr (JObj [(''error'', JStr ''Cannot connect to Freeplane bridge''),
                        (''details'', JStr (message e)),
                        (''hint'', JStr ''Make sure Freeplane is running and the FreeplaneHttpBridge.groovy script is executed'')])
        else Inl e,
        sent @ [\<lparr>rq_method = GET, rq_url = base_url self @ ''/status'', rq_json = None,
                  rq_timeout = timeout self\<rparr>]) \<and>
     execute net self command params sent =
       (if is_RequestException (exc_class e)
        then Inr (JObj [(''error'', JStr (message e))])
        else Inl e,
        sent @ [\<lparr>rq_method = POST, rq_url = base_url self @ ''/execute'',
                  rq_json = Some (JObj [(''command'', JStr command),
                                        (''params'', if truthy params then params else JObj [])]),
                  rq_timeout = timeout self\<rparr>])"
  using assms
  by (simp add: check_connection_def execute_eq io_except_def requests_get_def io_return_def)

theorem transport_failure_results_witness:
  "check_connection (scripted []) localhost [] =
     (Inr (JObj [(''error'', JStr ''Cannot connect to Freeplane bridge''),
                 (''details'', JStr ''Connection refused''),
                 (''hint'', JStr ''Make sure Freeplane is running and the FreeplaneHttpBridge.groovy script is executed'')]),
      [\<lparr>rq_method = GET, rq_url = ''http://localhost:8765/status'', rq_json = None, rq_timeout = 10\<rparr>]) \<and>
   fst (execute (scripted [Inl (Exn Timeout ''Read timed out''), Inl (Exn JSONDecodeError ''Expecting value'')])
          localhost ''fold_node'' (JObj [(''node_id'', JStr ''ID_1'')]) []) =
     Inr (JObj [(''error'', JStr ''Read timed out'')]) \<and>
   fst (execute (scripted [Inl (Exn Timeout ''Read timed out''), Inl (Exn JSONDecodeError ''Expecting value'')])
          localhost ''fold_node'' (JObj [(''node_id'', JStr ''ID_1'')])
          [\<lparr>rq_method = GET, rq_url = ''http://localhost:8765/status'', rq_json = None, rq_timeout = 10\<rparr>]) =
     Inr (JObj [(''error'', JStr ''Expecting value'')])"
proof -
  let ?net = "scripted [Inl (Exn Timeout ''Read timed out''), Inl (Exn JSONDecodeError ''Expecting value'')]"
  let ?rq = "\<lparr>rq_method = GET, rq_url = ''http://localhost:8765/status'', rq_json = None, rq_timeout = 10\<rparr>"
  have a: "scripted [] (length ([]::request list)) = Inl (Exn ConnectionError ''Connection refused'')"
    by (simp add: scripted_def)
  have b: "?net (length ([]::request list)) = Inl (Exn Timeout ''Read timed out'')"
    by (simp add: scripted_def)
  have c: "?net (length [?rq]) = Inl (Exn JSONDecodeError ''Expecting value'')"
    by (simp add: scripted_def)
  from transport_failure_results [of "scripted []" "[]" "Exn ConnectionError ''Connection refused''"
      localhost, OF a]
    transport_failure_results [of ?net "[]" "Exn Timeout ''Read timed out''" localhost
      "''fold_node''" "JObj [(''node_id'', JStr ''ID_1'')]", OF b]
    transport_failure_results [of ?net "[?rq]" "Exn JSONDecodeError ''Expecting value''" localhost
      "''fold_node''" "JObj [(''node_id'', JStr ''ID_1'')]", OF c]
  show ?thesis
    by (simp add: localhost_def FreeplaneClient_init_def)
qed

text \<open>
  A malformed response can fail outside \<^verbatim>\<open>requests.RequestException\<close>. A body holding
  an integer literal of 5000 digits makes \<^verbatim>\<open>response.json()\<close> raise \<^verbatim>\<open>ValueError\<close>, and
  a body of 200000 opening brackets makes it raise \<^verbatim>\<open>RecursionError\<close>; the library
  converts only the decoder's \<^verbatim>\<open>JSONDecodeError\<close>. Then \<^verbatim>\<open>execute\<close> and
  \<^verbatim>\<open>check_connection\<close> raise.
\<close>

theorem transport_failure_results_counterexample:
  "execute
     (scripted [Inl (Exn ValueError ''Exceeds the limit (4300 digits) for integer string conversion: value has 5000 digits; use sys.set_int_max_str_digits() to increase the limit'')])
     localhost ''get_map_info'' (JObj []) [] =
   (Inl (Exn ValueError ''Exceeds the limit (4300 digits) for integer string conversion: value has 5000 digits; use sys.set_int_max_str_digits() to increase the limit''),
    [\<lparr>rq_method = POST, rq_url = ''http://localhost:8765/execute'',
      rq_json = Some (JObj [(''command'', JStr ''get_map_info''), (''params'', JObj [])]),
      rq_timeout = 10\<rparr>]) \<and>
   check_connection
     (scripted [Inl (Exn RecursionError ''maximum recursion depth exceeded while decoding a JSON array from a unicode string'')])
     localhost [] =
   (Inl (Exn RecursionError ''maximum recursion depth exceeded while decoding a JSON array from a unicode string''),
    [\<lparr>rq_method = GET, rq_url = ''http://localhost:8765/status'', rq_json = None, rq_timeout = 10\<rparr>])"
  by (simp add: execute_eq check_connection_def io_except_def requests_get_def scripted_def
      localhost_def FreeplaneClient_init_def)

section \<open>The composite font-formatting tool\<close>

text \<open>
  Claim C5. For every argument mapping with none of the keys \<^verbatim>\<open>bold\<close>,
  \<^verbatim>\<open>italic\<close>, \<^verbatim>\<open>size\<close> (the empty mapping, or a mapping of other keys only), the
  font-formatting tool attempts no request and returns
  \<^verbatim>\<open>{"results": [], "success": true}\<close>.
\<close>

theorem font_formatting_no_keys:
  assumes "''bold'' \<notin> set (map fst kvs)" and "''italic'' \<notin> set (map fst kvs)"
    and "''size'' \<notin> set (map fst kvs)"
  shows "call_tool net headroom freeplane ''set_font_formatting'' (JObj kvs) sent =
     (Inr [TextContent ''text'' (JObj [(''results'', JList []), (''success'', JBool True)])], sent)"
  using assms
  by (simp add: call_tool_eq font_body io_bind_def io_lift_def io_return_def
      font_attribute_absent json_dumps_def)

theorem font_formatting_no_keys_witness:
  "call_tool (scripted []) 0 localhost ''set_font_formatting'' (JObj []) [] =
     (Inr [TextContent ''text'' (JObj [(''results'', JList []), (''success'', JBool True)])], []) \<and>
   call_tool (scripted []) 993 localhost ''set_font_formatting'' (JObj [(''underline'', JBool True)]) [] =
     (Inr [TextContent ''text'' (JObj [(''results'', JList []), (''success'', JBool True)])], [])"
  using font_formatting_no_keys [of "[]" "scripted []" 0 localhost "[]"]
    font_formatting_no_keys [of "[(''underline'', JBool True)]" "scripted []" 993 localhost "[]"]
  by simp

text \<open>
  Claim C3, for sub-results that are JSON objects within the reach of the encoder. For
  every argument mapping, when each sub-call yields a JSON object (an object sent by the
  bridge, or the error object of a transport failure) and no sub-result is nested deeper
  than the encoder can follow inside the composite (\<open>Suc headroom\<close> levels), the call
  returns the composite object whose \<^verbatim>\<open>results\<close> are the sub-results, unchanged and in
  order, and whose \<^verbatim>\<open>success\<close> is the conjunction of the truth values of the
  \<^verbatim>\<open>success\<close> entries of exactly those sub-results that have the key; a sub-result
  without the key takes no part in the conjunction and is still listed.
\<close>

theorem font_formatting_aggregate:
  assumes "\<forall>i < length (present_attributes kvs). yields_object (net (length sent + i))"
    and "\<forall>r \<in> set (sub_results net sent kvs). nesting r \<le> Suc headroom"
  shows "fst (call_tool net headroom freeplane ''set_font_formatting'' (JObj kvs) sent) =
     Inr [TextContent ''text''
       (JObj [(''results'', JList (sub_results net sent kvs)),
              (''success'', JBool (\<forall>r \<in> set (sub_results net sent kvs).
                 py_in ''success'' r = Inr True \<longrightarrow>
                 (\<exists>v. py_get r ''success'' = Inr v \<and> truthy v)))])]"
proof -
  from assms(1) have r: "\<forall>i < length (present_attributes kvs). returns (net (length sent + i))"
    by (simp add: yields_object_returns)
  from assms(1) have "\<forall>r \<in> set (sub_results net sent kvs). \<exists>kvs. r = JObj kvs"
    by (auto simp: sub_results_def yields_object_sub_result)
  from all_success_objects [OF this] foldr_max_nesting [OF assms(2)]
  show ?thesis
    by (simp add: font_call_returns [OF r])
qed

theorem font_formatting_aggregate_witness:
  "fst (call_tool
      (scripted [Inr (JObj [(''success'', JBool True)]),
                 Inr (JObj [(''status'', JStr ''ok'')]),
                 Inr (JObj [(''success'', JBool False), (''error'', JStr ''bad size'')])])
      993 localhost ''set_font_formatting''
      (JObj [(''bold'', JBool True), (''italic'', JBool False), (''size'', JInt 12)]) []) =
   Inr [TextContent ''text''
     (JObj [(''results'', JList
              [JObj [(''success'', JBool True)],
               JObj [(''status'', JStr ''ok'')],
               JObj [(''success'', JBool False), (''error'', JStr ''bad size'')]]),
            (''success'', JBool False)])] \<and>
   fst (call_tool
      (scripted [Inr (JObj [(''success'', JBool True)]), Inr (JObj [(''status'', JStr ''ok'')])])
      993 localhost ''set_font_formatting''
      (JObj [(''bold'', JBool True), (''italic'', JBool False)]) []) =
   Inr [TextContent ''text''
     (JObj [(''results'', JList [JObj [(''success'', JBool True)], JObj [(''status'', JStr ''ok'')]]),
            (''success'', JBool True)])]"
  using font_formatting_aggregate [of "[(''bold'', JBool True), (''italic'', JBool False), (''size'', JInt 12)]"
      "scripted [Inr (JObj [(''success'', JBool True)]),
                 Inr (JObj [(''status'', JStr ''ok'')]),
                 Inr (JObj [(''success'', JBool False), (''error'', JStr ''bad size'')])]"
      "[]" 993 localhost]
    font_formatting_aggregate [of "[(''bold'', JBool True), (''italic'', JBool False)]"
      "scripted [Inr (JObj [(''success'', JBool True)]), Inr (JObj [(''status'', JStr ''ok'')])]"
      "[]" 993 localhost]
  by (simp add: present_attributes_def scripted_def sub_results_def sub_result_def
      All_less_Suc numeral_3_eq_3 numeral_2_eq_2 upt_rec)

text \<open>
  Both restrictions are needed. When the bridge answers the second sub-call with the JSON
  value \<^verbatim>\<open>null\<close>, \<^verbatim>\<open>"success" in r\<close> raises \<^verbatim>\<open>TypeError\<close> during the aggregation.
  When the bridge answers with an object nested 994 levels, which the decoder of a fresh
  CPython 3.11 still accepts, \<^verbatim>\<open>json.dumps\<close> of the composite raises
  \<^verbatim>\<open>RecursionError\<close> (there the encoder follows 996 levels, \<open>headroom = 993\<close>). In
  both runs the sub-calls have been made and the call returns the error object of the
  outer handler, with neither \<^verbatim>\<open>results\<close> nor \<^verbatim>\<open>success\<close>.
\<close>

theorem font_formatting_aggregate_counterexample:
  "call_tool (scripted [Inr (JObj [(''success'', JBool True)]), Inr JNull])
      993 localhost ''set_font_formatting''
      (JObj [(''bold'', JBool True), (''italic'', JBool True)]) [] =
   (Inr [TextContent ''text''
      (JObj [(''error'', JStr (''argument of type '' @ quoted ''NoneType'' @ '' is not iterable'')),
             (''tool'', JStr ''set_font_formatting'')])],
    [sub_call localhost [(''bold'', JBool True), (''italic'', JBool True)] ''bold'' ''set_font_bold'',
     sub_call localhost [(''bold'', JBool True), (''italic'', JBool True)] ''italic'' ''set_font_italic'']) \<and>
   call_tool (scripted [Inr (nested 994)]) 993 localhost ''set_font_formatting''
      (JObj [(''italic'', JBool True)]) [] =
   (Inr [TextContent ''text''
      (JObj [(''error'', JStr ''maximum recursion depth exceeded while calling a Python object''),
             (''tool'', JStr ''set_font_formatting'')])],
    [sub_call localhost [(''italic'', JBool True)] ''italic'' ''set_font_italic''])"
proof
  show "call_tool (scripted [Inr (JObj [(''success'', JBool True)]), Inr JNull])
      993 localhost ''set_font_formatting''
      (JObj [(''bold'', JBool True), (''italic'', JBool True)]) [] =
   (Inr [TextContent ''text''
      (JObj [(''error'', JStr (''argument of type '' @ quoted ''NoneType'' @ '' is not iterable'')),
             (''tool'', JStr ''set_font_formatting'')])],
    [sub_call localhost [(''bold'', JBool True), (''italic'', JBool True)] ''bold'' ''set_font_bold'',
     sub_call localhost [(''bold'', JBool True), (''italic'', JBool True)] ''italic'' ''set_font_italic''])"
    by (simp add: call_tool_eq font_body io_bind_def io_lift_def io_return_def
        font_attribute_present font_attribute_absent scripted_def)
next
  show "call_tool (scripted [Inr (nested 994)]) 993 localhost ''set_font_formatting''
      (JObj [(''italic'', JBool True)]) [] =
   (Inr [TextContent ''text''
      (JObj [(''error'', JStr ''maximum recursion depth exceeded while calling a Python object''),
             (''tool'', JStr ''set_font_formatting'')])],
    [sub_call localhost [(''italic'', JBool True)] ''italic'' ''set_font_italic''])"
    by (simp add: call_tool_eq font_body io_bind_def io_lift_def io_return_def
        font_attribute_present font_attribute_absent scripted_def py_in_nested json_dumps_def
        nesting_nested)
qed

text \<open>
  Claim C4, with the conditions under which the sub-calls return. For every argument
  mapping: the requests of the call are sub-calls for keys among \<^verbatim>\<open>bold\<close>,
  \<^verbatim>\<open>italic\<close>, \<^verbatim>\<open>size\<close> that are present, in that order with none skipped, each
  carrying the node identifier and that one attribute, and the sub-call of the first
  present key is always made. When no sub-call raises anything but a transport failure,
  there is exactly one sub-call for each present key. When each sub-call yields a JSON
  object and no sub-result is nested deeper than the encoder can follow inside the
  composite, the call returns the composite object whose \<^verbatim>\<open>results\<close> are the
  sub-results in that order. So a call with only \<^verbatim>\<open>{"bold": true}\<close> makes exactly one
  sub-call, and returns \<^verbatim>\<open>results\<close> of length 1 under the last condition.
\<close>

theorem font_formatting_sub_calls:
  "(\<exists>new. snd (call_tool net headroom freeplane ''set_font_formatting'' (JObj kvs) sent) = sent @ new \<and>
      prefix new (map (\<lambda>(key, command). sub_call freeplane kvs key command) (present_attributes kvs)) \<and>
      (present_attributes kvs \<noteq> [] \<longrightarrow> new \<noteq> [])) \<and>
   ((\<forall>i < length (present_attributes kvs). returns (net (length sent + i))) \<longrightarrow>
      snd (call_tool net headroom freeplane ''set_font_formatting'' (JObj kvs) sent) =
        sent @ map (\<lambda>(key, command). sub_call freeplane kvs key command) (present_attributes kvs)) \<and>
   ((\<forall>i < length (present_attributes kvs). yields_object (net (length sent + i))) \<and>
    (\<forall>r \<in> set (sub_results net sent kvs). nesting r \<le> Suc headroom) \<longrightarrow>
      (\<exists>success. fst (call_tool net headroom freeplane ''set_font_formatting'' (JObj kvs) sent) =
         Inr [TextContent ''text''
           (JObj [(''results'', JList (sub_results net sent kvs)),
                  (''success'', JBool success)])]))"
proof (intro conjI impI)
  show "\<exists>new. snd (call_tool net headroom freeplane ''set_font_formatting'' (JObj kvs) sent) = sent @ new \<and>
      prefix new (map (\<lambda>(key, command). sub_call freeplane kvs key command) (present_attributes kvs)) \<and>
      (present_attributes kvs \<noteq> [] \<longrightarrow> new \<noteq> [])"
    by (rule font_sent_prefix)
next
  assume "\<forall>i < length (present_attributes kvs). returns (net (length sent + i))"
  then show "snd (call_tool net headroom freeplane ''set_font_formatting'' (JObj kvs) sent) =
        sent @ map (\<lambda>(key, command). sub_call freeplane kvs key command) (present_attributes kvs)"
    by (simp add: font_call_returns)
next
  assume a: "(\<forall>i < length (present_attributes kvs). yields_object (net (length sent + i))) \<and>
    (\<forall>r \<in> set (sub_results net sent kvs). nesting r \<le> Suc headroom)"
  then have r: "\<forall>i < length (present_attributes kvs). returns (net (length sent + i))"
    by (simp add: yields_object_returns)
  from a have "\<forall>r \<in> set (sub_results net sent kvs). \<exists>kvs. r = JObj kvs"
    by (auto simp: sub_results_def yields_object_sub_result)
  from all_success_objects [OF this] foldr_max_nesting [OF conjunct2 [OF a]]
  show "\<exists>success. fst (call_tool net headroom freeplane ''set_font_formatting'' (JObj kvs) sent) =
         Inr [TextContent ''text''
           (JObj [(''results'', JList (sub_results net sent kvs)),
                  (''success'', JBool success)])]"
    by (simp add: font_call_returns [OF r])
qed

theorem font_formatting_sub_calls_witness:
  "call_tool (scripted [Inr (JObj [(''success'', JBool True)])]) 993 localhost ''set_font_formatting''
      (JObj [(''bold'', JBool True)]) [] =
   (Inr [TextContent ''text''
      (JObj [(''results'', JList [JObj [(''success'', JBool True)]]), (''success'', JBool True)])],
    [\<lparr>rq_method = POST, rq_url = ''http://localhost:8765/execute'',
      rq_json = Some (JObj [(''command'', JStr ''set_font_bold''),
                            (''params'', JObj [(''node_id'', JNull), (''bold'', JBool True)])]),
      rq_timeout = 10\<rparr>])"
proof -
  let ?net = "scripted [Inr (JObj [(''success'', JBool True)])]"
  let ?kvs = "[(''bold'', JBool True)]"
  have p: "present_attributes ?kvs = [(''bold'', ''set_font_bold'')]"
    by (simp add: present_attributes_def)
  have y: "\<forall>i < length (present_attributes ?kvs). yields_object (?net (length ([]::request list) + i))"
    by (simp add: p scripted_def)
  then have r: "\<forall>i < length (present_attributes ?kvs). returns (?net (length ([]::request list) + i))"
    by (simp add: yields_object_returns)
  have d: "\<forall>r \<in> set (sub_results ?net [] ?kvs). nesting r \<le> Suc 993"
    by (simp add: p sub_results_def sub_result_def scripted_def)
  from font_formatting_sub_calls [of ?net 993 localhost ?kvs "[]"] y r d
  have s: "snd (call_tool ?net 993 localhost ''set_font_formatting'' (JObj ?kvs) []) =
      map (\<lambda>(key, command). sub_call localhost ?kvs key command) (present_attributes ?kvs)"
    and "\<exists>success. fst (call_tool ?net 993 localhost ''set_font_formatting'' (JObj ?kvs) []) =
         Inr [TextContent ''text''
           (JObj [(''results'', JList (sub_results ?net [] ?kvs)), (''success'', JBool success)])]"
    by simp_all
  then obtain success where f: "fst (call_tool ?net 993 localhost ''set_font_formatting'' (JObj ?kvs) []) =
         Inr [TextContent ''text''
           (JObj [(''results'', JList (sub_results ?net [] ?kvs)), (''success'', JBool success)])]"
    by blast
  have t: "success = True"
    using f by (simp add: call_tool_eq font_body io_bind_def io_lift_def io_return_def
      font_attribute_present font_attribute_absent scripted_def json_dumps_def)
  have "call_tool ?net 993 localhost ''set_font_formatting'' (JObj ?kvs) [] =
      (fst (call_tool ?net 993 localhost ''set_font_formatting'' (JObj ?kvs) []),
       snd (call_tool ?net 993 localhost ''set_font_formatting'' (JObj ?kvs) []))"
    by simp
  also have "\<dots> = (Inr [TextContent ''text''
           (JObj [(''results'', JList (sub_results ?net [] ?kvs)), (''success'', JBool True)])],
       map (\<lambda>(key, command). sub_call localhost ?kvs key command) (present_attributes ?kvs))"
    by (simp only: f s t)
  finally show ?thesis
    by (simp add: p sub_results_def sub_result_def scripted_def sub_call_def localhost_def
        FreeplaneClient_init_def)
qed

text \<open>
  Each condition is needed. With only \<^verbatim>\<open>{"bold": true}\<close>, the one sub-call is made and
  the call returns the error object of the outer handler, not a \<^verbatim>\<open>results\<close> sequence,
  when the bridge answers \<^verbatim>\<open>null\<close> and when it answers an object nested 994 levels.
  With \<^verbatim>\<open>bold\<close> and \<^verbatim>\<open>italic\<close> present, no sub-call is made for \<^verbatim>\<open>italic\<close> when the
  answer to the first sub-call holds an integer literal of 5000 digits: decoding it raises
  \<^verbatim>\<open>ValueError\<close>, which \<^verbatim>\<open>execute\<close> does not catch.
\<close>

theorem font_formatting_sub_calls_counterexample:
  "call_tool (scripted [Inr JNull]) 993 localhost ''set_font_formatting'' (JObj [(''bold'', JBool True)]) [] =
   (Inr [TextContent ''text''
      (JObj [(''error'', JStr (''argument of type '' @ quoted ''NoneType'' @ '' is not iterable'')),
             (''tool'', JStr ''set_font_formatting'')])],
    [sub_call localhost [(''bold'', JBool True)] ''bold'' ''set_font_bold'']) \<and>
   call_tool (scripted [Inr (nested 994)]) 993 localhost ''set_font_formatting''
      (JObj [(''bold'', JBool True)]) [] =
   (Inr [TextContent ''text''
      (JObj [(''error'', JStr ''maximum recursion depth exceeded while calling a Python object''),
             (''tool'', JStr ''set_font_formatting'')])],
    [sub_call localhost [(''bold'', JBool True)] ''bold'' ''set_font_bold'']) \<and>
   call_tool
      (scripted [Inl (Exn ValueError ''Exceeds the limit (4300 digits) for integer string conversion: value has 5000 digits; use sys.set_int_max_str_digits() to increase the limit'')])
      993 localhost ''set_font_formatting''
      (JObj [(''bold'', JBool True), (''italic'', JBool True)]) [] =
   (Inr [TextContent ''text''
      (JObj [(''error'', JStr ''Exceeds the limit (4300 digits) for integer string conversion: value has 5000 digits; use sys.set_int_max_str_digits() to increase the limit''),
             (''tool'', JStr ''set_font_formatting'')])],
    [sub_call localhost [(''bold'', JBool True), (''italic'', JBool True)] ''bold'' ''set_font_bold''])"
proof (intro conjI)
  show "call_tool (scripted [Inr JNull]) 993 localhost ''set_font_formatting'' (JObj [(''bold'', JBool True)]) [] =
   (Inr [TextContent ''text''
      (JObj [(''error'', JStr (''argument of type '' @ quoted ''NoneType'' @ '' is not iterable'')),
             (''tool'', JStr ''set_font_formatting'')])],
    [sub_call localhost [(''bold'', JBool True)] ''bold'' ''set_font_bold''])"
    by (simp add: call_tool_eq font_body io_bind_def io_lift_def io_return_def
        font_attribute_present font_attribute_absent scripted_def)
next
  show "call_tool (scripted [Inr (nested 994)]) 993 localhost ''set_font_formatting''
      (JObj [(''bold'', JBool True)]) [] =
   (Inr [TextContent ''text''
      (JObj [(''error'', JStr ''maximum recursion depth exceeded while calling a Python object''),
             (''tool'', JStr ''set_font_formatting'')])],
    [sub_call localhost [(''bold'', JBool True)] ''bold'' ''set_font_bold''])"
    by (simp add: call_tool_eq font_body io_bind_def io_lift_def io_return_def
        font_attribute_present font_attribute_absent scripted_def py_in_nested json_dumps_def
        nesting_nested)
next
  show "call_tool
      (scripted [Inl (Exn ValueError ''Exceeds the limit (4300 digits) for integer string conversion: value has 5000 digits; use sys.set_int_max_str_digits() to increase the limit'')])
      993 localhost ''set_font_formatting''
      (JObj [(''bold'', JBool True), (''italic'', JBool True)]) [] =
   (Inr [TextContent ''text''
      (JObj [(''error'', JStr ''Exceeds the limit (4300 digits) for integer string conversion: value has 5000 digits; use sys.set_int_max_str_digits() to increase the limit''),
             (''tool'', JStr ''set_font_formatting'')])],
    [sub_call localhost [(''bold'', JBool True), (''italic'', JBool True)] ''bold'' ''set_font_bold''])"
    by (simp add: call_tool_eq font_body io_bind_def io_lift_def io_return_def
        font_attribute_present font_attribute_absent scripted_def)
qed

text \<open>
  Claim C9. For every argument mapping, when every sub-call of the font-formatting tool
  fails at the transport level (with a \<^verbatim>\<open>requests.RequestException\<close>), each sub-result
  is an object with the one key \<^verbatim>\<open>error\<close>, none has the key \<^verbatim>\<open>success\<close>, and the
  composite object lists these error objects in \<^verbatim>\<open>results\<close> and reports
  \<^verbatim>\<open>success = true\<close>, the flag of the call that makes no sub-call at all.
\<close>

theorem font_formatting_transport_failures:
  assumes "\<forall>i < length (present_attributes kvs).
             \<exists>e. net (length sent + i) = Inl e \<and> is_RequestException (exc_class e)"
  shows "call_tool net headroom freeplane ''set_font_formatting'' (JObj kvs) sent =
     (Inr [TextContent ''text''
        (JObj [(''results'', JList (map (\<lambda>i. JObj [(''error'', JStr (message (projl (net (length sent + i)))))])
                                     [0..<length (present_attributes kvs)])),
               (''success'', JBool True)])],
      sent @ map (\<lambda>(key, command). sub_call freeplane kvs key command) (present_attributes kvs))"
proof -
  from assms have r: "\<forall>i < length (present_attributes kvs). returns (net (length sent + i))"
    by auto
  from assms have m: "sub_results net sent kvs =
      map (\<lambda>i. JObj [(''error'', JStr (message (projl (net (length sent + i)))))])
        [0..<length (present_attributes kvs)]"
    by (auto simp: sub_results_def sub_result_def)
  have s: "all_success (map (\<lambda>i. JObj [(''error'', JStr (message (projl (net (length sent + i)))))])
        [0..<length (present_attributes kvs)]) = Inr True"
    by (rule all_success_errors) auto
  have "\<forall>r \<in> set (map (\<lambda>i. JObj [(''error'', JStr (message (projl (net (length sent + i)))))])
        [0..<length (present_attributes kvs)]). nesting r \<le> Suc headroom"
    by auto
  from foldr_max_nesting [OF this] s show ?thesis
    by (simp add: font_call_returns [OF r] m)
qed

theorem font_formatting_transport_failures_witness:
  "call_tool (scripted []) 993 localhost ''set_font_formatting''
      (JObj [(''node_id'', JStr ''ID_1''), (''italic'', JBool True), (''size'', JInt 14)]) [] =
   (Inr [TextContent ''text''
      (JObj [(''results'', JList [JObj [(''error'', JStr ''Connection refused'')],
                                  JObj [(''error'', JStr ''Connection refused'')]]),
             (''success'', JBool True)])],
    [\<lparr>rq_method = POST, rq_url = ''http://localhost:8765/execute'',
      rq_json = Some (JObj [(''command'', JStr ''set_font_italic''),
                            (''params'', JObj [(''node_id'', JStr ''ID_1''), (''italic'', JBool True)])]),
      rq_timeout = 10\<rparr>,
     \<lparr>rq_method = POST, rq_url = ''http://localhost:8765/execute'',
      rq_json = Some (JObj [(''command'', JStr ''set_font_size''),
                            (''params'', JObj [(''node_id'', JStr ''ID_1''), (''size'', JInt 14)])]),
      rq_timeout = 10\<rparr>])"
  using font_formatting_transport_failures [of
      "[(''node_id'', JStr ''ID_1''), (''italic'', JBool True), (''size'', JInt 14)]"
      "scripted []" "[]" 993 localhost]
  by (simp add: present_attributes_def scripted_def sub_call_def localhost_def
      FreeplaneClient_init_def numeral_2_eq_2 upt_rec)

text \<open>
  Claim C10. For every argument mapping without the key \<^verbatim>\<open>node_id\<close>, every request
  that the font-formatting tool attempts carries a \<^verbatim>\<open>params\<close> mapping of exactly two
  keys: \<^verbatim>\<open>node_id\<close>, bound to \<^verbatim>\<open>None\<close> (JSON \<^verbatim>\<open>null\<close>, not left out), and the
  one attribute key with the caller's value.
\<close>

theorem font_formatting_node_id_null:
  assumes "''node_id'' \<notin> set (map fst kvs)"
  shows "\<forall>rq \<in> set (drop (length sent)
            (snd (call_tool net headroom freeplane ''set_font_formatting'' (JObj kvs) sent))).
     \<exists>key command v. (key, command) \<in> set (present_attributes kvs) \<and> map_of kvs key = Some v \<and>
       rq_json rq = Some (JObj [(''command'', JStr command),
                                (''params'', JObj [(''node_id'', JNull), (key, v)])])"
proof
  fix rq
  assume rq: "rq \<in> set (drop (length sent)
      (snd (call_tool net headroom freeplane ''set_font_formatting'' (JObj kvs) sent)))"
  from font_sent_prefix [of net headroom freeplane kvs sent] obtain new where
    new: "snd (call_tool net headroom freeplane ''set_font_formatting'' (JObj kvs) sent) = sent @ new"
    and pre: "prefix new (map (\<lambda>(key, command). sub_call freeplane kvs key command) (present_attributes kvs))"
    by blast
  from rq new have "rq \<in> set new" by simp
  with pre have "rq \<in> set (map (\<lambda>(key, command). sub_call freeplane kvs key command) (present_attributes kvs))"
    using set_mono_prefix by blast
  then obtain key command where kc: "(key, command) \<in> set (present_attributes kvs)"
    and rq_eq: "rq = sub_call freeplane kvs key command"
    by auto
  from kc have "key \<in> set (map fst kvs)"
    by (auto simp: present_attributes_def split: if_splits)
  then obtain v where v: "map_of kvs key = Some v"
    by (metis map_of_eq_None_iff not_Some_eq set_map)
  from assms have n: "map_of kvs ''node_id'' = None"
    by (simp add: map_of_eq_None_iff)
  show "\<exists>key command v. (key, command) \<in> set (present_attributes kvs) \<and> map_of kvs key = Some v \<and>
       rq_json rq = Some (JObj [(''command'', JStr command),
                                (''params'', JObj [(''node_id'', JNull), (key, v)])])"
    using kc v n rq_eq by (auto simp: sub_call_def)
qed

theorem font_formatting_node_id_null_witness:
  "''node_id'' \<notin> set (map fst [(''bold'', JBool True), (''size'', JInt 14)]) \<and>
   drop (length ([]::request list))
     (snd (call_tool (scripted [Inr (JObj [(''success'', JBool True)]), Inr (JObj [(''success'', JBool True)])])
        993 localhost ''set_font_formatting'' (JObj [(''bold'', JBool True), (''size'', JInt 14)]) [])) =
    [\<lparr>rq_method = POST, rq_url = ''http://localhost:8765/execute'',
      rq_json = Some (JObj [(''command'', JStr ''set_font_bold''),
                            (''params'', JObj [(''node_id'', JNull), (''bold'', JBool True)])]),
      rq_timeout = 10\<rparr>,
     \<lparr>rq_method = POST, rq_url = ''http://localhost:8765/execute'',
      rq_json = Some (JObj [(''command'', JStr ''set_font_size''),
                            (''params'', JObj [(''node_id'', JNull), (''size'', JInt 14)])]),
      rq_timeout = 10\<rparr>] \<and>
   (\<exists>key command v. (key, command) \<in> set (present_attributes [(''bold'', JBool True), (''size'', JInt 14)]) \<and>
       map_of [(''bold'', JBool True), (''size'', JInt 14)] key = Some v \<and>
       Some (JObj [(''command'', JStr ''set_font_bold''),
                   (''params'', JObj [(''node_id'', JNull), (''bold'', JBool True)])]) =
       Some (JObj [(''command'', JStr command), (''params'', JObj [(''node_id'', JNull), (key, v)])])) \<and>
   (\<exists>key command v. (key, command) \<in> set (present_attributes [(''bold'', JBool True), (''size'', JInt 14)]) \<and>
       map_of [(''bold'', JBool True), (''size'', JInt 14)] key = Some v \<and>
       Some (JObj [(''command'', JStr ''set_font_size''),
                   (''params'', JObj [(''node_id'', JNull), (''size'', JInt 14)])]) =
       Some (JObj [(''command'', JStr command), (''params'', JObj [(''node_id'', JNull), (key, v)])]))"
proof -
  let ?kvs = "[(''bold'', JBool True), (''size'', JInt 14)]"
  let ?net = "scripted [Inr (JObj [(''success'', JBool True)]), Inr (JObj [(''success'', JBool True)])]"
  have a: "''node_id'' \<notin> set (map fst ?kvs)" by simp
  have s: "snd (call_tool ?net 993 localhost ''set_font_formatting'' (JObj ?kvs) []) =
    [\<lparr>rq_method = POST, rq_url = ''http://localhost:8765/execute'',
      rq_json = Some (JObj [(''command'', JStr ''set_font_bold''),
                            (''params'', JObj [(''node_id'', JNull), (''bold'', JBool True)])]),
      rq_timeout = 10\<rparr>,
     \<lparr>rq_method = POST, rq_url = ''http://localhost:8765/execute'',
      rq_json = Some (JObj [(''command'', JStr ''set_font_size''),
                            (''params'', JObj [(''node_id'', JNull), (''size'', JInt 14)])]),
      rq_timeout = 10\<rparr>]"
    by (simp add: call_tool_eq font_body io_bind_def io_lift_def io_return_def
      font_attribute_present font_attribute_absent scripted_def sub_call_def localhost_def
      FreeplaneClient_init_def json_dumps_def)
  from font_formatting_node_id_null [OF a, of "[]" ?net 993 localhost] a s
  show ?thesis
    by simp
qed

end
